theory Spec2Isabelle
  imports Main "HOL-Library.Word"
begin

section \<open>JavaScript values used by the gateway\<close>

text \<open>
  A JavaScript string is a sequence of UTF-16 code units. The emoji literals of the
  source are written out as their code units; ASCII literals go through \<open>js\<close>.
  Numbers that the code keeps integral (milliseconds from \<open>Date.now()\<close>, the
  floored elapsed seconds) are modelled as \<open>int\<close>.
\<close>

type_synonym jsstring = "16 word list"

definition js :: "string \<Rightarrow> jsstring" where
  "js s = map (\<lambda>c. of_nat (of_char c)) s"

text \<open>\<open>WhiteSpace\<close> and \<open>LineTerminator\<close> of ECMAScript, as \<open>String.prototype.trimEnd\<close> strips them.\<close>

definition isWhiteSpace :: "16 word \<Rightarrow> bool" where
  "isWhiteSpace c =
     (c = 0x9 \<or> c = 0xA \<or> c = 0xB \<or> c = 0xC \<or> c = 0xD \<or> c = 0x20 \<or> c = 0xA0 \<or>
      c = 0x1680 \<or> (0x2000 \<le> c \<and> c \<le> 0x200A) \<or> c = 0x2028 \<or> c = 0x2029 \<or>
      c = 0x202F \<or> c = 0x205F \<or> c = 0x3000 \<or> c = 0xFEFF)"

definition trimEnd :: "jsstring \<Rightarrow> jsstring" where
  "trimEnd s = rev (dropWhile isWhiteSpace (rev s))"

definition endsWith :: "jsstring \<Rightarrow> jsstring \<Rightarrow> bool" where
  "endsWith s suffix =
     (length suffix \<le> length s \<and> drop (length s - length suffix) s = suffix)"

text \<open>\<open>Array.prototype.join\<close> on an array of strings.\<close>

fun join :: "jsstring list \<Rightarrow> jsstring \<Rightarrow> jsstring" where
  "join [] sep = []"
| "join [x] sep = x"
| "join (x # y # ys) sep = x @ sep @ join (y # ys) sep"

text \<open>\<open>String.prototype.padStart\<close>: the filler is repeated and cut to the missing length.\<close>

definition padStart :: "jsstring \<Rightarrow> nat \<Rightarrow> jsstring \<Rightarrow> jsstring" where
  "padStart s n fill =
     (if n \<le> length s \<or> fill = [] then s
      else take (n - length s) (concat (replicate (n - length s) fill)) @ s)"

definition digit :: "nat \<Rightarrow> 16 word" where
  "digit d = of_nat (48 + d)"

fun dec_nat :: "nat \<Rightarrow> jsstring" where
  "dec_nat n = (if n < 10 then [digit n] else dec_nat (n div 10) @ [digit (n mod 10)])"

declare dec_nat.simps [simp del]

text \<open>\<open>Number.prototype.toString\<close> on an integral number (below the exponent notation).\<close>

definition numberToString :: "int \<Rightarrow> jsstring" where
  "numberToString i = (if i < 0 then js ''-'' @ dec_nat (nat (- i)) else dec_nat (nat i))"

text \<open>The remainder operator \<open>%\<close> takes the sign of the dividend.\<close>

definition js_rem :: "int \<Rightarrow> int \<Rightarrow> int" where
  "js_rem a b = sgn a * (\<bar>a\<bar> mod \<bar>b\<bar>)"

section \<open>Status updates: configuration and rendering\<close>

datatype status_phase =
  Sending_query | Receiving_reasoning | Processing_tools | Generating_response | Complete

datatype status_update_mode = Mode_off | Mode_edit | Mode_inline

text \<open>
  \<open>StatusUpdateConfig\<close>: every key is optional; \<open>None\<close> is a key that is absent.
\<close>

record status_update_config =
  opt_enabled :: "bool option"
  opt_mode :: "status_update_mode option"
  opt_updateIntervalMs :: "int option"
  opt_showPhases :: "bool option"
  opt_showElapsedTime :: "bool option"
  opt_markFinalWithCheckmark :: "bool option"
  opt_elapsedTimeThresholdMs :: "int option"

text \<open>\<open>Required<StatusUpdateConfig>\<close>.\<close>

record resolved_config =
  enabled :: bool
  mode :: status_update_mode
  updateIntervalMs :: int
  showPhases :: bool
  showElapsedTime :: bool
  markFinalWithCheckmark :: bool
  elapsedTimeThresholdMs :: int

definition DEFAULT_CONFIG :: resolved_config where
  "DEFAULT_CONFIG =
     \<lparr> enabled = False, mode = Mode_edit, updateIntervalMs = 5000, showPhases = True,
       showElapsedTime = True, markFinalWithCheckmark = True, elapsedTimeThresholdMs = 3000 \<rparr>"

fun PHASE_MESSAGES :: "status_phase \<Rightarrow> jsstring" where
  "PHASE_MESSAGES Sending_query = js ''Sending query to AI model''"
| "PHASE_MESSAGES Receiving_reasoning = js ''Processing reasoning data''"
| "PHASE_MESSAGES Processing_tools = js ''Executing tools''"
| "PHASE_MESSAGES Generating_response = js ''Generating response''"
| "PHASE_MESSAGES Complete = js ''Complete''"

fun PHASE_EMOJI :: "status_phase \<Rightarrow> jsstring" where
  "PHASE_EMOJI Sending_query = [0x23F3]"
| "PHASE_EMOJI Receiving_reasoning = [0xD83E, 0xDDE0]"
| "PHASE_EMOJI Processing_tools = [0xD83D, 0xDD27]"
| "PHASE_EMOJI Generating_response = [0x270D, 0xFE0F]"
| "PHASE_EMOJI Complete = [0x2705]"

text \<open>The spread \<open>{...DEFAULT_CONFIG, ...config}\<close>: a present key overrides the default.\<close>

definition resolveStatusUpdateConfig :: "status_update_config option \<Rightarrow> resolved_config" where
  "resolveStatusUpdateConfig config =
     (case config of
        None \<Rightarrow> DEFAULT_CONFIG
      | Some c \<Rightarrow>
          \<lparr> enabled = (case opt_enabled c of Some v \<Rightarrow> v | None \<Rightarrow> enabled DEFAULT_CONFIG),
            mode = (case opt_mode c of Some v \<Rightarrow> v | None \<Rightarrow> mode DEFAULT_CONFIG),
            updateIntervalMs =
              (case opt_updateIntervalMs c of Some v \<Rightarrow> v | None \<Rightarrow> updateIntervalMs DEFAULT_CONFIG),
            showPhases = (case opt_showPhases c of Some v \<Rightarrow> v | None \<Rightarrow> showPhases DEFAULT_CONFIG),
            showElapsedTime =
              (case opt_showElapsedTime c of Some v \<Rightarrow> v | None \<Rightarrow> showElapsedTime DEFAULT_CONFIG),
            markFinalWithCheckmark =
              (case opt_markFinalWithCheckmark c of Some v \<Rightarrow> v
               | None \<Rightarrow> markFinalWithCheckmark DEFAULT_CONFIG),
            elapsedTimeThresholdMs =
              (case opt_elapsedTimeThresholdMs c of Some v \<Rightarrow> v
               | None \<Rightarrow> elapsedTimeThresholdMs DEFAULT_CONFIG) \<rparr>)"

text \<open>
  \<open>formatElapsedTime\<close>: \<open>Math.floor(seconds / 60)\<close> is floor division on an integral
  number, \<open>seconds % 60\<close> is the truncating remainder.
\<close>

definition formatElapsedTime :: "int \<Rightarrow> jsstring" where
  "formatElapsedTime seconds =
     (let minutes = seconds div 60;
          remainingSeconds = js_rem seconds 60;
          paddedSeconds = padStart (numberToString remainingSeconds) 2 (js ''0'')
      in numberToString minutes @ js '':'' @ paddedSeconds)"

text \<open>
  \<open>formatStatusMessage\<close>: the parts are pushed in order, joined with a blank, and the
  fallback of \<open>||\<close> is taken when the joined string is empty.
\<close>

definition formatStatusMessage :: "status_phase \<Rightarrow> int \<Rightarrow> resolved_config \<Rightarrow> jsstring" where
  "formatStatusMessage phase elapsedSeconds config =
     (let parts0 = [];
          parts1 =
            (if showPhases config
             then parts0 @ [PHASE_EMOJI phase @ js '' '' @ PHASE_MESSAGES phase]
             else parts0);
          parts2 =
            (if showElapsedTime config \<and> elapsedSeconds * 1000 \<ge> elapsedTimeThresholdMs config
             then parts1 @ [js ''('' @ formatElapsedTime elapsedSeconds @ js '')'']
             else parts1);
          joined = join parts2 (js '' '')
      in if joined \<noteq> [] then joined else js ''Processing...'')"

text \<open>
  \<open>markResponseComplete\<close>: \<open>!text\<close> holds for \<open>undefined\<close> and for the empty string.
\<close>

definition markResponseComplete ::
  "jsstring option \<Rightarrow> status_update_config option \<Rightarrow> jsstring option" where
  "markResponseComplete txt config =
     (case txt of
        None \<Rightarrow> txt
      | Some t \<Rightarrow>
          if t = [] then txt
          else
            let resolved = resolveStatusUpdateConfig config in
            if \<not> enabled resolved \<or> \<not> markFinalWithCheckmark resolved then txt
            else if endsWith (trimEnd t) [0x2705] then txt
            else Some (trimEnd t @ js '' '' @ [0x2705]))"

section \<open>StatusUpdateController\<close>

text \<open>
  The controller's callbacks belong to the channel. Each invocation is appended to the
  controller's \<open>outbox\<close> (a log that is not a field of the source class), and what a
  callback answers may depend on everything invoked so far. \<open>Date.now()\<close> is the
  \<open>now\<close> argument of each operation. \<open>setPhase\<close>, \<open>complete\<close>, \<open>cleanup\<close> and
  a timer tick are run to their end before the next operation starts: the only code of
  theirs after an \<open>await\<close> is the assignment of the message id in \<open>sendUpdate\<close>.
  \<open>start\<close> arms the timer after its \<open>await\<close>, and the runner does not await
  \<open>start\<close>; its two halves are steps of their own.
\<close>

datatype status_call = SendStatus jsstring "jsstring option" | DeleteStatus jsstring

datatype 'a settled = Resolved 'a | Rejected

record status_update_callbacks =
  sendStatus :: "status_call list \<Rightarrow> jsstring \<Rightarrow> jsstring option \<Rightarrow> jsstring option settled"
  supportsEdit_cb :: "bool option"
  deleteStatus :: "(status_call list \<Rightarrow> jsstring \<Rightarrow> unit settled) option"

record status_update_state =
  phase :: status_phase
  startedAt :: int
  statusMessageId :: "jsstring option"
  lastUpdateAt :: int
  elapsedSeconds :: int
  isComplete :: bool

record status_update_controller =
  config :: resolved_config
  callbacks :: status_update_callbacks
  state :: status_update_state
  updateTimer :: bool
  stopped :: bool
  editedInPlace :: bool
  outbox :: "status_call list"

text \<open>Truthiness of an optional string: \<open>undefined\<close> and \<open>""\<close> are falsy.\<close>

definition truthy :: "jsstring option \<Rightarrow> bool" where
  "truthy v = (case v of None \<Rightarrow> False | Some t \<Rightarrow> t \<noteq> [])"

definition createStatusUpdateController ::
  "status_update_config \<Rightarrow> status_update_callbacks \<Rightarrow> int \<Rightarrow> int \<Rightarrow> status_update_controller" where
  "createStatusUpdateController cfg cbs now1 now2 =
     \<lparr> config = resolveStatusUpdateConfig (Some cfg),
       callbacks = cbs,
       state = \<lparr> phase = Sending_query, startedAt = now1, statusMessageId = None,
                 lastUpdateAt = now2, elapsedSeconds = 0, isComplete = False \<rparr>,
       updateTimer = False, stopped = False, editedInPlace = False, outbox = [] \<rparr>"

definition isEnabled :: "status_update_controller \<Rightarrow> bool" where
  "isEnabled c = (enabled (config c) \<and> mode (config c) \<noteq> Mode_off)"

definition supportsEdit :: "status_update_controller \<Rightarrow> bool" where
  "supportsEdit c = (case supportsEdit_cb (callbacks c) of Some b \<Rightarrow> b | None \<Rightarrow> False)"

definition startUpdateTimer :: "status_update_controller \<Rightarrow> status_update_controller" where
  "startUpdateTimer c = (if updateTimer c then c else c\<lparr>updateTimer := True\<rparr>)"

definition stopUpdateTimer :: "status_update_controller \<Rightarrow> status_update_controller" where
  "stopUpdateTimer c = (if updateTimer c then c\<lparr>updateTimer := False\<rparr> else c)"

text \<open>
  \<open>sendUpdate\<close>: both branches of the \<open>try\<close> make the same call; the edit branch
  stores whatever comes back, the other one only a truthy id. A rejection is logged at
  debug level and changes nothing else.
\<close>

definition sendUpdate :: "int \<Rightarrow> status_update_controller \<Rightarrow> status_update_controller" where
  "sendUpdate now c =
     (if stopped c then c
      else
        let secs = (now - startedAt (state c)) div 1000;
            st = (state c)\<lparr>elapsedSeconds := secs, lastUpdateAt := now\<rparr>;
            txt = formatStatusMessage (phase st) (elapsedSeconds st) (config c);
            answer = sendStatus (callbacks c) (outbox c) txt (statusMessageId st);
            sent = outbox c @ [SendStatus txt (statusMessageId st)]
        in if mode (config c) = Mode_edit \<and> supportsEdit c \<and> truthy (statusMessageId st)
           then (case answer of
                   Resolved r \<Rightarrow> c\<lparr>state := st\<lparr>statusMessageId := r\<rparr>, outbox := sent\<rparr>
                 | Rejected \<Rightarrow> c\<lparr>state := st, outbox := sent\<rparr>)
           else (case answer of
                   Resolved r \<Rightarrow>
                     if truthy r then c\<lparr>state := st\<lparr>statusMessageId := r\<rparr>, outbox := sent\<rparr>
                     else c\<lparr>state := st, outbox := sent\<rparr>
                 | Rejected \<Rightarrow> c\<lparr>state := st, outbox := sent\<rparr>))"

text \<open>
  \<open>start\<close> up to its \<open>await\<close>: the guard and the first render. The first component
  tells whether the rest of \<open>start\<close> is still to run.
\<close>

definition start_before_await ::
  "int \<Rightarrow> status_update_controller \<Rightarrow> bool \<times> status_update_controller" where
  "start_before_await now c =
     (if \<not> isEnabled c \<or> stopped c then (False, c) else (True, sendUpdate now c))"

text \<open>
  \<open>start\<close> after its \<open>await\<close>: the timer is armed when elapsed time is shown,
  whatever has happened to the controller in between.
\<close>

definition start_after_await :: "status_update_controller \<Rightarrow> status_update_controller" where
  "start_after_await c = (if showElapsedTime (config c) then startUpdateTimer c else c)"

text \<open>\<open>start\<close> with nothing running between its two halves.\<close>

definition start :: "int \<Rightarrow> status_update_controller \<Rightarrow> status_update_controller" where
  "start now c =
     (case start_before_await now c of
        (True, c1) \<Rightarrow> start_after_await c1
      | (False, c1) \<Rightarrow> c1)"

text \<open>One firing of the interval armed by \<open>startUpdateTimer\<close>.\<close>

definition timerTick :: "int \<Rightarrow> status_update_controller \<Rightarrow> status_update_controller" where
  "timerTick now c =
     (if \<not> updateTimer c then c
      else if stopped c \<or> isComplete (state c) then stopUpdateTimer c
      else sendUpdate now c)"

definition setPhase ::
  "int \<Rightarrow> status_phase \<Rightarrow> status_update_controller \<Rightarrow> status_update_controller" where
  "setPhase now p c =
     (if \<not> isEnabled c \<or> stopped c \<or> isComplete (state c) then c
      else if p = phase (state c) then c
      else
        let c1 = c\<lparr>state := (state c)\<lparr>phase := p\<rparr>\<rparr>
        in if p = Complete
           then stopUpdateTimer (c1\<lparr>state := (state c1)\<lparr>isComplete := True\<rparr>\<rparr>)
           else sendUpdate now c1)"

text \<open>A sequence of \<open>setPhase\<close> calls, each at its own time.\<close>

fun setPhases ::
  "(int \<times> status_phase) list \<Rightarrow> status_update_controller \<Rightarrow> status_update_controller" where
  "setPhases [] c = c"
| "setPhases ((now, p) # rest) c = setPhases rest (setPhase now p c)"

text \<open>The best-effort deletion of the status message: a rejection is caught and logged.\<close>

definition tryDeleteStatus :: "status_update_controller \<Rightarrow> status_update_controller" where
  "tryDeleteStatus c =
     (case (statusMessageId (state c), deleteStatus (callbacks c)) of
        (Some mid, Some del) \<Rightarrow>
          if mid \<noteq> [] then c\<lparr>outbox := outbox c @ [DeleteStatus mid]\<rparr> else c
      | _ \<Rightarrow> c)"

text \<open>
  \<open>complete\<close> returns the text for the caller to deliver (\<open>None\<close> is \<open>undefined\<close>)
  together with the controller afterwards.
\<close>

definition complete ::
  "int \<Rightarrow> jsstring option \<Rightarrow> status_update_controller
     \<Rightarrow> jsstring option \<times> status_update_controller" where
  "complete now finalText c =
     (if stopped c then (None, c)
      else
        let c1 = (stopUpdateTimer (c\<lparr>state := (state c)\<lparr>isComplete := True\<rparr>\<rparr>))\<lparr>stopped := True\<rparr>
        in if \<not> isEnabled c1 then (finalText, c1)
           else if truthy finalText \<and> markFinalWithCheckmark (config c1) then
             let secs = (now - startedAt (state c1)) div 1000;
                 c2 = c1\<lparr>state := (state c1)\<lparr>elapsedSeconds := secs\<rparr>\<rparr>;
                 marked = trimEnd (the finalText) @ js '' _('' @
                            formatElapsedTime (elapsedSeconds (state c2)) @ js '')_''
             in (Some marked, c2)
           else (finalText, tryDeleteStatus c1))"

definition cleanup :: "status_update_controller \<Rightarrow> status_update_controller" where
  "cleanup c =
     (let c1 = (stopUpdateTimer c)\<lparr>stopped := True\<rparr>
      in if \<not> isComplete (state c1) then tryDeleteStatus c1 else c1)"

subsection \<open>The runner's view of the controller\<close>

text \<open>
  \<open>StatusUpdateRunContext\<close> of status-updates-integration.ts: the controller is absent
  when status updates are disabled.
\<close>

record status_update_run_context =
  controller :: "status_update_controller option"
  ctx_startedAt :: int
  currentPhase :: status_phase

definition completeStatusUpdate ::
  "int \<Rightarrow> status_update_run_context \<Rightarrow> jsstring option
     \<Rightarrow> jsstring option \<times> status_update_run_context" where
  "completeStatusUpdate now ctx finalText =
     (case controller ctx of
        None \<Rightarrow> (finalText, ctx)
      | Some c \<Rightarrow>
          let (r, c') = complete now finalText c
          in (r, ctx\<lparr>controller := Some c'\<rparr>))"

text \<open>\<open>noopStatusCallbacks\<close> of status-updates-integration.ts.\<close>

definition noopStatusCallbacks :: status_update_callbacks where
  "noopStatusCallbacks =
     \<lparr> sendStatus = (\<lambda>_ _ _. Resolved None), supportsEdit_cb = Some False, deleteStatus = None \<rparr>"

text \<open>
  A controller built by the constructor and driven through \<open>setPhase\<close> has the phase
  \<open>complete\<close> only with the completion flag set.
\<close>

definition phase_flag_agree :: "status_update_controller \<Rightarrow> bool" where
  "phase_flag_agree c = (phase (state c) \<noteq> Complete \<or> isComplete (state c))"

subsection \<open>Concrete inputs\<close>

text \<open>The configuration \<open>{ enabled: true }\<close> and a fresh controller on it, created at time 0.\<close>

definition enabledOnly :: status_update_config where
  "enabledOnly =
     \<lparr> opt_enabled = Some True, opt_mode = None, opt_updateIntervalMs = None,
       opt_showPhases = None, opt_showElapsedTime = None,
       opt_markFinalWithCheckmark = None, opt_elapsedTimeThresholdMs = None \<rparr>"

definition liveController :: status_update_controller where
  "liveController = createStatusUpdateController enabledOnly noopStatusCallbacks 0 0"

section \<open>The reply agent runner\<close>

text \<open>
  \<open>runReplyAgent\<close> of agent-runner.ts works on the session entry, the session store
  and the followup run it was handed, and on collaborators of other modules. The
  collaborators are parameters of the model (\<open>runner_env\<close>); every call that
  reaches outside the function is appended to \<open>effects\<close>. What a store write or an
  unlink answers may depend on the effects made so far. \<open>Date.now()\<close> is the
  \<open>now\<close> argument.
\<close>

record session_entry =
  sessionId :: jsstring
  sessionFile :: "jsstring option"
  updatedAt :: int
  systemSent :: "bool option"
  abortedLastRun :: "bool option"
  groupActivationNeedsSystemIntro :: "bool option"
  contextTokens :: "int option"
  responseUsage :: "jsstring option"

type_synonym session_store = "jsstring \<rightharpoonup> session_entry"

text \<open>
  The session store is a plain object. The map holds its own properties. Reading a key
  that is no own property finds the member of \<open>Object.prototype\<close> of that name when
  there is one: a truthy value that is no session entry, has no \<open>sessionId\<close> and
  spreads to nothing. An assignment to a key creates or replaces the own property (for
  the one key \<open>__proto__\<close> JavaScript replaces the prototype instead, which the map
  does not follow).
\<close>

definition objectPrototypeMember :: "jsstring \<Rightarrow> bool" where
  "objectPrototypeMember key =
     (key \<in> set (map js
        [''constructor'', ''__defineGetter__'', ''__defineSetter__'', ''hasOwnProperty'',
         ''__lookupGetter__'', ''__lookupSetter__'', ''isPrototypeOf'', ''propertyIsEnumerable'',
         ''toString'', ''valueOf'', ''__proto__'', ''toLocaleString'']))"

datatype store_read = Own_entry session_entry | Inherited_member | No_property

definition readStore :: "session_store \<Rightarrow> jsstring \<Rightarrow> store_read" where
  "readStore store key =
     (case store key of
        Some e \<Rightarrow> Own_entry e
      | None \<Rightarrow> if objectPrototypeMember key then Inherited_member else No_property)"

datatype runner_effect =
    QueueEmbeddedPiMessage jsstring jsstring
  | EnqueueFollowupRun jsstring jsstring
  | UpdateSessionStoreEntry jsstring jsstring int
  | UpdateSessionStore jsstring jsstring session_entry
  | TypingCleanup
  | RuntimeError jsstring
  | UnlinkSync jsstring bool

text \<open>
  \<open>storeWriteError\<close> is what \<open>updateSessionStore\<close> or \<open>updateSessionStoreEntry\<close>
  rejects with (\<open>None\<close>: the write resolves); \<open>unlinkThrows\<close> tells whether
  \<open>fs.unlinkSync\<close> throws on a path; \<open>randomUUID\<close> is the id that
  \<open>crypto.randomUUID()\<close> hands out.
\<close>

record runner_env =
  queueEmbeddedPiMessage :: "jsstring \<Rightarrow> jsstring \<Rightarrow> bool"
  randomUUID :: "runner_effect list \<Rightarrow> jsstring"
  storeWriteError :: "runner_effect list \<Rightarrow> jsstring option"
  unlinkThrows :: "runner_effect list \<Rightarrow> jsstring \<Rightarrow> bool"
  resolveAgentIdFromSessionKey :: "jsstring option \<Rightarrow> jsstring"
  resolveSessionTranscriptPath :: "jsstring \<Rightarrow> jsstring \<Rightarrow> jsstring option \<Rightarrow> jsstring"
  resolveSessionFilePath :: "jsstring \<Rightarrow> session_entry \<Rightarrow> jsstring \<Rightarrow> jsstring"

text \<open>The parameters of one invocation that the modelled parts read.\<close>

record run_params =
  prompt :: jsstring
  queueKey :: jsstring
  queueMode :: jsstring
  shouldSteer :: bool
  shouldFollowup :: bool
  isActive :: bool
  isStreaming :: bool
  sessionKey :: "jsstring option"
  storePath :: "jsstring option"
  MessageThreadId :: "jsstring option"

text \<open>
  What the invocation mutates: its \<open>let\<close> variables, the store object it shares with
  the caller, and the session fields of \<open>followupRun.run\<close>.
\<close>

record runner_state =
  activeSessionEntry :: "session_entry option"
  activeSessionStore :: "session_store option"
  activeIsNewSession :: bool
  run_sessionId :: jsstring
  run_sessionFile :: "jsstring option"
  effects :: "runner_effect list"

subsection \<open>Steering and queueing (lines 176 to 212)\<close>

text \<open>
  The block that bumps \<open>updatedAt\<close>, written twice in the source (lines 179 to 190 and
  198 to 209). The store write is awaited outside any \<open>try\<close>: the first component
  tells whether the block ran to its end.
\<close>

definition touchSession ::
  "runner_env \<Rightarrow> run_params \<Rightarrow> int \<Rightarrow> runner_state \<Rightarrow> bool \<times> runner_state" where
  "touchSession env p now s =
     (case (activeSessionEntry s, activeSessionStore s, sessionKey p) of
        (Some entry, Some store, Some key) \<Rightarrow>
          if key = [] then (True, s)
          else
            let entry' = entry\<lparr>updatedAt := now\<rparr>;
                s1 = s\<lparr>activeSessionEntry := Some entry',
                       activeSessionStore := Some (store(key \<mapsto> entry'))\<rparr>
            in (case storePath p of
                  Some path \<Rightarrow>
                    if path = [] then (True, s1)
                    else (storeWriteError env (effects s1) = None,
                          s1\<lparr>effects := effects s1 @ [UpdateSessionStoreEntry path key now]\<rparr>)
                | None \<Rightarrow> (True, s1))
      | _ \<Rightarrow> (True, s))"

datatype run_outcome = Returned_undefined | Rejected_by_store_write | Runs_turn

text \<open>
  \<open>runReplyAgent\<close> up to the point where the turn starts (\<open>Runs_turn\<close>): the steer
  attempt, the early return after an accepted steer, and the enqueue.
\<close>

definition runReplyAgent_before_turn ::
  "runner_env \<Rightarrow> run_params \<Rightarrow> int \<Rightarrow> runner_state \<Rightarrow> run_outcome \<times> runner_state" where
  "runReplyAgent_before_turn env p now s =
     (let trySteer = (shouldSteer p \<and> isStreaming p);
          steered = (trySteer \<and> queueEmbeddedPiMessage env (run_sessionId s) (prompt p));
          s0 = (if trySteer
                then s\<lparr>effects := effects s @ [QueueEmbeddedPiMessage (run_sessionId s) (prompt p)]\<rparr>
                else s)
      in if steered \<and> \<not> shouldFollowup p then
           (case touchSession env p now s0 of
              (True, s1) \<Rightarrow> (Returned_undefined, s1\<lparr>effects := effects s1 @ [TypingCleanup]\<rparr>)
            | (False, s1) \<Rightarrow> (Rejected_by_store_write, s1))
         else if isActive p \<and> (shouldFollowup p \<or> queueMode p = js ''steer'') then
           (case touchSession env p now
                   (s0\<lparr>effects := effects s0 @ [EnqueueFollowupRun (queueKey p) (prompt p)]\<rparr>) of
              (True, s1) \<Rightarrow> (Returned_undefined, s1\<lparr>effects := effects s1 @ [TypingCleanup]\<rparr>)
            | (False, s1) \<Rightarrow> (Rejected_by_store_write, s1))
         else (Runs_turn, s0))"

definition enqueued :: "runner_effect list \<Rightarrow> bool" where
  "enqueued es = (\<exists>e \<in> set es. case e of EnqueueFollowupRun _ _ \<Rightarrow> True | _ \<Rightarrow> False)"

subsection \<open>Session reset (lines 249 to 315)\<close>

record session_reset_options =
  failureLabel :: jsstring
  buildLogMessage :: "jsstring \<Rightarrow> jsstring"
  cleanupTranscripts :: bool

text \<open>
  The \<open>Set\<close> of transcript candidates in insertion order: the path resolved from the
  session store when it is non-empty, then the canonical by-id path unless it is the
  same string.
\<close>

definition transcriptCandidates ::
  "runner_env \<Rightarrow> jsstring \<Rightarrow> session_entry \<Rightarrow> jsstring \<Rightarrow> jsstring list" where
  "transcriptCandidates env prevSessionId prevEntry agentId =
     (let resolved = resolveSessionFilePath env prevSessionId prevEntry agentId;
          first = (if resolved \<noteq> [] then [resolved] else []);
          canonical = resolveSessionTranscriptPath env prevSessionId agentId None
      in if canonical \<in> set first then first else first @ [canonical])"

text \<open>The loop over the candidates: every unlink is tried, a throw is swallowed.\<close>

fun unlinkAll :: "runner_env \<Rightarrow> jsstring list \<Rightarrow> runner_effect list \<Rightarrow> runner_effect list" where
  "unlinkAll env [] es = es"
| "unlinkAll env (candidate # rest) es =
     unlinkAll env rest (es @ [UnlinkSync candidate (unlinkThrows env es candidate)])"

text \<open>
  \<open>prevEntry\<close> is \<open>activeSessionStore[sessionKey] ?? activeSessionEntry\<close>: what the
  store answers, a session entry or an inherited member, and the active entry only when
  the store answers \<open>undefined\<close>.
\<close>

datatype prev_entry = Session_entry session_entry | Prototype_member

definition prevEntryOf ::
  "session_store \<Rightarrow> jsstring \<Rightarrow> session_entry option \<Rightarrow> prev_entry option" where
  "prevEntryOf store key active =
     (case readStore store key of
        Own_entry e \<Rightarrow> Some (Session_entry e)
      | Inherited_member \<Rightarrow> Some Prototype_member
      | No_property \<Rightarrow> map_option Session_entry active)"

text \<open>
  The spread \<open>{...prevEntry, sessionId, updatedAt, systemSent, abortedLastRun}\<close>: on a
  session entry the four fields are replaced, on an inherited member they are all there is.
\<close>

definition nextEntryFrom :: "prev_entry \<Rightarrow> jsstring \<Rightarrow> int \<Rightarrow> session_entry" where
  "nextEntryFrom prevEntry nextSessionId now =
     (case prevEntry of
        Session_entry e \<Rightarrow>
          e\<lparr>sessionId := nextSessionId, updatedAt := now,
            systemSent := Some False, abortedLastRun := Some False\<rparr>
      | Prototype_member \<Rightarrow>
          \<lparr> sessionId = nextSessionId, sessionFile = None, updatedAt = now,
            systemSent = Some False, abortedLastRun = Some False,
            groupActivationNeedsSystemIntro = None, contextTokens = None,
            responseUsage = None \<rparr>)"

definition resetSession ::
  "runner_env \<Rightarrow> run_params \<Rightarrow> session_reset_options \<Rightarrow> int \<Rightarrow> runner_state
     \<Rightarrow> bool \<times> runner_state" where
  "resetSession env p opts now s =
     (case (sessionKey p, activeSessionStore s, storePath p) of
        (Some key, Some store, Some path) \<Rightarrow>
          if key = [] \<or> path = [] then (False, s)
          else
            (case prevEntryOf store key (activeSessionEntry s) of
               None \<Rightarrow> (False, s)
             | Some prevEntry \<Rightarrow>
                 let prevSessionId =
                       (if cleanupTranscripts opts
                        then (case prevEntry of
                                Session_entry e \<Rightarrow> Some (sessionId e)
                              | Prototype_member \<Rightarrow> None)
                        else None);
                     nextSessionId = randomUUID env (effects s);
                     nextEntry0 = nextEntryFrom prevEntry nextSessionId now;
                     agentId = resolveAgentIdFromSessionKey env (Some key);
                     nextSessionFile =
                       resolveSessionTranscriptPath env nextSessionId agentId (MessageThreadId p);
                     nextEntry = nextEntry0\<lparr>sessionFile := Some nextSessionFile\<rparr>;
                     written = effects s @ [UpdateSessionStore path key nextEntry];
                     effects1 =
                       (case storeWriteError env (effects s) of
                          None \<Rightarrow> written
                        | Some err \<Rightarrow>
                            written @
                            [RuntimeError (js ''Failed to persist session reset after '' @
                               failureLabel opts @ js '' ('' @ key @ js ''): '' @ err)]);
                     effects2 = effects1 @ [RuntimeError (buildLogMessage opts nextSessionId)];
                     effects3 =
                       (case prevEntry of
                          Session_entry e \<Rightarrow>
                            if cleanupTranscripts opts \<and> truthy prevSessionId
                            then unlinkAll env
                                   (transcriptCandidates env (the prevSessionId) e agentId)
                                   effects2
                            else effects2
                        | Prototype_member \<Rightarrow> effects2)
                 in (True,
                     s\<lparr>activeSessionEntry := Some nextEntry,
                       activeSessionStore := Some (store(key \<mapsto> nextEntry)),
                       activeIsNewSession := True,
                       run_sessionId := nextSessionId,
                       run_sessionFile := Some nextSessionFile,
                       effects := effects3\<rparr>))
      | _ \<Rightarrow> (False, s))"

text \<open>The session key as a template literal prints it.\<close>

definition printedKey :: "jsstring option \<Rightarrow> jsstring" where
  "printedKey k = (case k of Some key \<Rightarrow> key | None \<Rightarrow> js ''undefined'')"

definition resetSessionAfterCompactionFailure ::
  "runner_env \<Rightarrow> run_params \<Rightarrow> jsstring \<Rightarrow> int \<Rightarrow> runner_state \<Rightarrow> bool \<times> runner_state" where
  "resetSessionAfterCompactionFailure env p reason now s =
     resetSession env p
       \<lparr> failureLabel = js ''compaction failure'',
         buildLogMessage = (\<lambda>nextSessionId.
           js ''Auto-compaction failed ('' @ reason @ js ''). Restarting session '' @
           printedKey (sessionKey p) @ js '' -> '' @ nextSessionId @ js '' and retrying.''),
         cleanupTranscripts = False \<rparr>
       now s"

definition resetSessionAfterRoleOrderingConflict ::
  "runner_env \<Rightarrow> run_params \<Rightarrow> jsstring \<Rightarrow> int \<Rightarrow> runner_state \<Rightarrow> bool \<times> runner_state" where
  "resetSessionAfterRoleOrderingConflict env p reason now s =
     resetSession env p
       \<lparr> failureLabel = js ''role ordering conflict'',
         buildLogMessage = (\<lambda>nextSessionId.
           js ''Role ordering conflict ('' @ reason @ js ''). Restarting session '' @
           printedKey (sessionKey p) @ js '' -> '' @ nextSessionId @ js ''.''),
         cleanupTranscripts = True \<rparr>
       now s"

text \<open>The paths on which \<open>fs.unlinkSync\<close> was called, in order.\<close>

fun unlinkedPaths :: "runner_effect list \<Rightarrow> jsstring list" where
  "unlinkedPaths [] = []"
| "unlinkedPaths (UnlinkSync path threw # es) = path # unlinkedPaths es"
| "unlinkedPaths (e # es) = unlinkedPaths es"

subsection \<open>Reply payloads and the final list (lines 567 to 606)\<close>

record reply_payload =
  ptext :: "jsstring option"
  mediaUrl :: "jsstring option"
  mediaUrls :: "jsstring list option"
  replyToId :: "jsstring option"
  audioAsVoice :: bool
  isStatusMessage :: bool

text \<open>The object literal \<open>{ text: t }\<close>.\<close>

definition textPayload :: "jsstring \<Rightarrow> reply_payload" where
  "textPayload t =
     \<lparr> ptext = Some t, mediaUrl = None, mediaUrls = None, replyToId = None,
       audioAsVoice = False, isStatusMessage = False \<rparr>"

text \<open>
  Arrays are objects: \<open>finalPayloads\<close> and \<open>replyPayloads\<close> are references into a
  store of arrays, a reference being an index into the store. A spread
  \<open>[x, ...xs]\<close> allocates a new array; an indexed assignment writes into the array
  the reference points to. Payload objects are never written to in this part of the
  function, so they are kept as values. A reference held by the function always points
  into the store.
\<close>

type_synonym array_store = "reply_payload list list"

definition new_array :: "array_store \<Rightarrow> reply_payload list \<Rightarrow> array_store \<times> nat" where
  "new_array h xs = (h @ [xs], length h)"

datatype reply_result = Undefined | Single reply_payload | Many "reply_payload list"

fun payloads_of :: "reply_result \<Rightarrow> reply_payload list" where
  "payloads_of Undefined = []"
| "payloads_of (Single p) = [p]"
| "payloads_of (Many ps) = ps"

text \<open>
  What the final part of \<open>runReplyAgent\<close> reads: the reference \<open>replyPayloads\<close>,
  whether verbose is on, whether auto-compaction completed and the count that
  \<open>incrementCompactionCount\<close> returned, \<open>activeIsNewSession\<close>, the session id of the
  run and the usage line computed before.
\<close>

record final_input =
  replyPayloads :: nat
  verboseEnabled :: bool
  autoCompactionCompleted :: bool
  compactionCount :: "int option"
  isNewSession :: bool
  finalSessionId :: jsstring
  responseUsageLine :: "jsstring option"

text \<open>
  \<open>appendUsageLine\<close> of agent-runner-utils.ts is not among the sources: it is a
  parameter that takes the array store, a reference and the line, and returns the store
  and the reference of its result. The value handed to \<open>finalizeWithFollowup\<close> is
  what the function returns; it is read when the \<open>return\<close> statement runs, after
  the status update has written the marked text.
\<close>

definition runReplyAgent_final_payloads ::
  "(array_store \<Rightarrow> nat \<Rightarrow> jsstring \<Rightarrow> array_store \<times> nat) \<Rightarrow> final_input \<Rightarrow> int
     \<Rightarrow> status_update_run_context \<Rightarrow> array_store
     \<Rightarrow> reply_result \<times> array_store \<times> status_update_run_context" where
  "runReplyAgent_final_payloads appendUsageLine inp now ctx h =
     (let finalPayloads0 = replyPayloads inp;
          suffix = (case compactionCount inp of
                      Some n \<Rightarrow> js '' (count '' @ numberToString n @ js '')''
                    | None \<Rightarrow> []);
          (h1, finalPayloads1) =
            (if autoCompactionCompleted inp \<and> verboseEnabled inp
             then new_array h
                    (textPayload ([0xD83E, 0xDDF9] @ js '' Auto-compaction complete'' @ suffix @ js ''.'')
                     # (h ! finalPayloads0))
             else (h, finalPayloads0));
          (h2, finalPayloads2) =
            (if verboseEnabled inp \<and> isNewSession inp
             then new_array h1
                    (textPayload ([0xD83E, 0xDDED] @ js '' New session: '' @ finalSessionId inp)
                     # (h1 ! finalPayloads1))
             else (h1, finalPayloads1));
          (h3, finalPayloads3) =
            (if truthy (responseUsageLine inp)
             then appendUsageLine h2 finalPayloads2 (the (responseUsageLine inp))
             else (h2, finalPayloads2));
          replies = h3 ! replyPayloads inp;
          (h4, ctx') =
            (if length replies > 0 then
               let lastPayload = replies ! (length replies - 1)
               in if truthy (ptext lastPayload) then
                    let (markedText, ctx1) = completeStatusUpdate now ctx (ptext lastPayload)
                    in if truthy markedText
                       then (h3[replyPayloads inp :=
                                  replies[length replies - 1 := lastPayload\<lparr>ptext := markedText\<rparr>]],
                             ctx1)
                       else (h3, ctx1)
                  else (h3, ctx)
             else (h3, ctx));
          final = h4 ! finalPayloads3
      in (if length final = 1 then Single (final ! 0) else Many final, h4, ctx'))"

subsection \<open>Concrete inputs\<close>

text \<open>
  Collaborators that accept every steer, hand out the id \<open>uuid-2\<close>, never fail a store
  write and fail every unlink; a session entry with a transcript of its own; an
  invocation that steers; and the state it starts from.
\<close>

definition exampleRunnerEnv :: runner_env where
  "exampleRunnerEnv =
     \<lparr> queueEmbeddedPiMessage = (\<lambda>sid msg. True),
       randomUUID = (\<lambda>es. js ''uuid-2''),
       storeWriteError = (\<lambda>es. None),
       unlinkThrows = (\<lambda>es path. True),
       resolveAgentIdFromSessionKey = (\<lambda>k. js ''main''),
       resolveSessionTranscriptPath = (\<lambda>sid agent topic. js ''/sessions/'' @ sid @ js ''.jsonl''),
       resolveSessionFilePath = (\<lambda>sid entry agent.
          case sessionFile entry of Some f \<Rightarrow> f | None \<Rightarrow> js ''/sessions/'' @ sid @ js ''.jsonl'') \<rparr>"

definition exampleEntry :: session_entry where
  "exampleEntry =
     \<lparr> sessionId = js ''uuid-1'', sessionFile = Some (js ''/old/uuid-1.jsonl''), updatedAt = 0,
       systemSent = Some True, abortedLastRun = Some True,
       groupActivationNeedsSystemIntro = None, contextTokens = None, responseUsage = None \<rparr>"

definition steerParams :: run_params where
  "steerParams =
     \<lparr> prompt = js ''hello'', queueKey = js ''q'', queueMode = js ''steer'',
       shouldSteer = True, shouldFollowup = False, isActive = True, isStreaming = True,
       sessionKey = Some (js ''agent:main:chat''), storePath = Some (js ''/store.json''),
       MessageThreadId = None \<rparr>"

definition exampleState :: runner_state where
  "exampleState =
     \<lparr> activeSessionEntry = Some exampleEntry,
       activeSessionStore = Some [js ''agent:main:chat'' \<mapsto> exampleEntry],
       activeIsNewSession = False, run_sessionId = js ''uuid-1'',
       run_sessionFile = Some (js ''/old/uuid-1.jsonl''), effects = [] \<rparr>"


text \<open>
  One text reply in the only array of the store, verbose on, a new session, no usage
  line, and a live status controller.
\<close>

definition verboseNewSession :: final_input where
  "verboseNewSession =
     \<lparr> replyPayloads = 0, verboseEnabled = True, autoCompactionCompleted = False,
       compactionCount = None, isNewSession = True, finalSessionId = js ''s1'',
       responseUsageLine = None \<rparr>"

definition liveContext :: status_update_run_context where
  "liveContext = \<lparr> controller = Some liveController, ctx_startedAt = 0, currentPhase = Sending_query \<rparr>"

definition noUsageLine :: "array_store \<Rightarrow> nat \<Rightarrow> jsstring \<Rightarrow> array_store \<times> nat" where
  "noUsageLine h r line = (h, r)"

section \<open>Telegram delivery\<close>

subsection \<open>The sent-message cache\<close>

text \<open>
  The module-level map of sent-message-cache.ts, keyed by \<open>String(chatId)\<close>. Message
  ids are integral numbers; the \<open>Set\<close> of ids and the \<open>Map\<close> of timestamps keep
  their insertion order.
\<close>

record last_sent =
  messageId :: int
  timestamp :: int
  isStatus :: bool

record cache_entry =
  messageIds :: "int list"
  timestamps :: "(int \<times> int) list"
  lastSent :: "last_sent option"

type_synonym sent_cache = "jsstring \<rightharpoonup> cache_entry"

definition TTL_MS :: int where
  "TTL_MS = 24 * 60 * 60 * 1000"

definition cleanupExpired :: "int \<Rightarrow> cache_entry \<Rightarrow> cache_entry" where
  "cleanupExpired now entry =
     (let expired = map fst (filter (\<lambda>(msgId, t). now - t > TTL_MS) (timestamps entry))
      in entry\<lparr>messageIds := filter (\<lambda>m. m \<notin> set expired) (messageIds entry),
               timestamps := filter (\<lambda>(msgId, t). msgId \<notin> set expired) (timestamps entry)\<rparr>)"

definition recordSentMessage :: "jsstring \<Rightarrow> int \<Rightarrow> bool \<Rightarrow> int \<Rightarrow> sent_cache \<Rightarrow> sent_cache" where
  "recordSentMessage key msgId status now cache =
     (let entry0 = (case cache key of
                      Some e \<Rightarrow> e
                    | None \<Rightarrow> \<lparr> messageIds = [], timestamps = [], lastSent = None \<rparr>);
          entry1 = entry0\<lparr>
            messageIds := (if msgId \<in> set (messageIds entry0) then messageIds entry0
                           else messageIds entry0 @ [msgId]),
            timestamps := (if msgId \<in> fst ` set (timestamps entry0)
                           then map (\<lambda>(m, t). if m = msgId then (m, now) else (m, t))
                                  (timestamps entry0)
                           else timestamps entry0 @ [(msgId, now)]),
            lastSent := Some \<lparr> messageId = msgId, timestamp = now, isStatus = status \<rparr>\<rparr>;
          entry2 = (if length (messageIds entry1) > 100 then cleanupExpired now entry1 else entry1)
      in cache(key \<mapsto> entry2))"

definition getLastSentMessage :: "sent_cache \<Rightarrow> jsstring \<Rightarrow> last_sent option" where
  "getLastSentMessage cache key = (case cache key of Some e \<Rightarrow> lastSent e | None \<Rightarrow> None)"

subsection \<open>Calls that leave the process\<close>

datatype reply_to_mode = Reply_off | Reply_first | Reply_all

datatype chunk_mode = Chunk_length | Chunk_newline

datatype media_kind = Kind_image | Kind_video | Kind_audio | Kind_document | Kind_unknown

datatype media_api = SendAnimation | SendPhoto | SendVideo | SendVoice | SendAudio | SendDocument

record telegram_chunk =
  chunk_html :: jsstring
  chunk_text :: jsstring

record web_media =
  contentType :: "jsstring option"
  fileName :: "jsstring option"

text \<open>The options object handed to \<open>bot.api.sendMessage\<close>, and to the media methods.\<close>

record message_params =
  parse_mode_html :: bool
  link_preview_disabled :: bool
  reply_to_message_id :: "int option"
  message_thread_id :: "int option"

record media_params =
  caption :: "jsstring option"
  media_reply_to_message_id :: "int option"
  media_parse_mode_html :: bool
  media_message_thread_id :: "int option"

datatype delivery_call =
    LogVerbose jsstring
  | Runtime_error jsstring
  | Runtime_log jsstring
  | EditMessageTelegram int jsstring
  | SendMessageTelegram jsstring "int option"
  | Bot_sendMessage jsstring message_params
  | LoadWebMedia jsstring
  | Bot_sendMedia media_api media_params
  | OnVoiceRecording

text \<open>
  The history pairs every call with whether it returned. The diagnostic
  \<open>console.error\<close> lines of the text branch go to the process's own stderr and are
  not recorded.
\<close>

type_synonym delivery_history = "(delivery_call \<times> bool) list"

text \<open>
  The parameters of \<open>deliverReplies\<close> and its collaborators. Formatting and chunking
  helpers of other modules are functions of their arguments; the calls that reach the
  network answer depending on the history. \<open>bot_sendMessage\<close> answers with the
  \<open>message_id\<close> or with the formatted text of the error it throws;
  \<open>sendMessageTelegram\<close> with the numeric value of \<open>result.messageId\<close>
  (\<open>Some None\<close>: an empty id, \<open>None\<close>: it throws). \<open>runtime.error\<close>,
  \<open>runtime.log\<close> and \<open>onVoiceRecording\<close> are optional members.
\<close>

record delivery_env =
  chatId :: jsstring
  replyToMode :: reply_to_mode
  textLimit :: int
  messageThreadId :: "int option"
  chunkMode :: "chunk_mode option"
  linkPreview :: "bool option"
  runtime_error_defined :: bool
  runtime_log_defined :: bool
  onVoiceRecording_defined :: bool
  chunkMarkdownTextWithMode :: "jsstring \<Rightarrow> int \<Rightarrow> jsstring list"
  markdownToTelegramChunks :: "jsstring \<Rightarrow> int \<Rightarrow> telegram_chunk list"
  markdownToTelegramHtml :: "jsstring \<Rightarrow> jsstring"
  renderTelegramHtmlText :: "jsstring \<Rightarrow> jsstring"
  splitTelegramCaption :: "jsstring option \<Rightarrow> jsstring option \<times> jsstring option"
  resolveTelegramReplyId :: "jsstring option \<Rightarrow> int option"
  buildTelegramThreadParams :: "int option \<Rightarrow> int option"
  mediaKindFromMime :: "jsstring option \<Rightarrow> media_kind"
  isGifMedia :: "web_media \<Rightarrow> bool"
  resolveTelegramVoiceSend :: "bool \<Rightarrow> jsstring option \<Rightarrow> jsstring \<Rightarrow> bool \<times> jsstring option"
  danger :: "jsstring \<Rightarrow> jsstring"
  dateNow :: "delivery_history \<Rightarrow> int"
  bot_sendMessage :: "delivery_history \<Rightarrow> jsstring \<Rightarrow> message_params \<Rightarrow> jsstring + int"
  bot_sendMedia :: "delivery_history \<Rightarrow> media_api \<Rightarrow> media_params \<Rightarrow> bool"
  editMessageTelegram :: "delivery_history \<Rightarrow> int \<Rightarrow> jsstring \<Rightarrow> bool"
  sendMessageTelegram :: "delivery_history \<Rightarrow> jsstring \<Rightarrow> int option \<Rightarrow> int option option"
  loadWebMedia :: "delivery_history \<Rightarrow> jsstring \<Rightarrow> web_media option"
  onVoiceRecording :: "delivery_history \<Rightarrow> bool"

record delivery_state =
  hasReplied :: bool
  sentMessages :: sent_cache
  history :: delivery_history

datatype 'a attempt = Completed 'a | Threw delivery_state

definition logged :: "delivery_call \<Rightarrow> bool \<Rightarrow> delivery_state \<Rightarrow> delivery_state" where
  "logged call returned s = s\<lparr>history := history s @ [(call, returned)]\<rparr>"

text \<open>Truthiness of an optional number: \<open>undefined\<close> and \<open>0\<close> are falsy.\<close>

definition truthyNum :: "int option \<Rightarrow> bool" where
  "truthyNum v = (case v of None \<Rightarrow> False | Some n \<Rightarrow> n \<noteq> 0)"

subsection \<open>\<open>sendTelegramText\<close>\<close>

text \<open>
  \<open>PARSE_ERR_RE\<close>: one of three phrases occurs in the error text, letters compared
  without case.
\<close>

definition lowerAscii :: "16 word \<Rightarrow> 16 word" where
  "lowerAscii c = (if 0x41 \<le> c \<and> c \<le> 0x5A then c + 0x20 else c)"

fun occursIn :: "jsstring \<Rightarrow> jsstring \<Rightarrow> bool" where
  "occursIn pat [] = (pat = [])"
| "occursIn pat (c # cs) =
     (take (length pat) (map lowerAscii (c # cs)) = pat \<or> occursIn pat cs)"

definition PARSE_ERR_RE_test :: "jsstring \<Rightarrow> bool" where
  "PARSE_ERR_RE_test errText =
     (occursIn (js ''can't parse entities'') errText \<or>
      occursIn (js ''parse entities'') errText \<or>
      occursIn (js ''find end of the entity'') errText)"

record send_text_opts =
  replyToMessageId :: "int option"
  opts_messageThreadId :: "int option"
  textMode_html :: bool
  plainText :: "jsstring option"
  opts_linkPreview :: "bool option"

definition sendTelegramText ::
  "delivery_env \<Rightarrow> jsstring \<Rightarrow> send_text_opts \<Rightarrow> delivery_state
     \<Rightarrow> (int \<times> delivery_state) attempt" where
  "sendTelegramText env txt opts s =
     (let linkPreviewEnabled = (case opts_linkPreview opts of Some b \<Rightarrow> b | None \<Rightarrow> True);
          baseParams =
            \<lparr> parse_mode_html = False,
              link_preview_disabled = \<not> linkPreviewEnabled,
              reply_to_message_id =
                (if truthyNum (replyToMessageId opts) then replyToMessageId opts else None),
              message_thread_id = buildTelegramThreadParams env (opts_messageThreadId opts) \<rparr>;
          htmlText = (if textMode_html opts then txt else markdownToTelegramHtml env txt);
          htmlParams = baseParams\<lparr>parse_mode_html := True\<rparr>
      in case bot_sendMessage env (history s) htmlText htmlParams of
           Inr message_id \<Rightarrow> Completed (message_id, logged (Bot_sendMessage htmlText htmlParams) True s)
         | Inl errText \<Rightarrow>
             let s1 = logged (Bot_sendMessage htmlText htmlParams) False s
             in if PARSE_ERR_RE_test errText then
                  let s2 = (if runtime_log_defined env
                            then logged (Runtime_log
                                   (js ''telegram HTML parse failed; retrying without formatting: '' @
                                    errText)) True s1
                            else s1);
                      fallbackText = (case plainText opts of Some t \<Rightarrow> t | None \<Rightarrow> txt)
                  in (case bot_sendMessage env (history s2) fallbackText baseParams of
                        Inr message_id \<Rightarrow>
                          Completed (message_id, logged (Bot_sendMessage fallbackText baseParams) True s2)
                      | Inl err2 \<Rightarrow> Threw (logged (Bot_sendMessage fallbackText baseParams) False s2))
                else Threw s1)"

subsection \<open>\<open>deliverReplies\<close>\<close>

definition chunkText :: "delivery_env \<Rightarrow> jsstring \<Rightarrow> telegram_chunk list" where
  "chunkText env markdown =
     (let markdownChunks =
            (if (case chunkMode env of Some m \<Rightarrow> m | None \<Rightarrow> Chunk_length) = Chunk_newline
             then chunkMarkdownTextWithMode env markdown (textLimit env)
             else [markdown])
      in concat (map (\<lambda>chunk.
           let nested = markdownToTelegramChunks env chunk (textLimit env)
           in if nested = [] \<and> chunk \<noteq> []
              then [\<lparr> chunk_html = markdownToTelegramHtml env chunk, chunk_text = chunk \<rparr>]
              else nested) markdownChunks))"

text \<open>The reply target a send gets: the payload's, unless the mode is \<open>first\<close> and one was used.\<close>

definition replyTargetNow :: "delivery_env \<Rightarrow> int option \<Rightarrow> delivery_state \<Rightarrow> int option" where
  "replyTargetNow env replyTo s =
     (if truthyNum replyTo \<and> (replyToMode env = Reply_all \<or> \<not> hasReplied s) then replyTo else None)"

definition markReplied :: "int option \<Rightarrow> delivery_state \<Rightarrow> delivery_state" where
  "markReplied replyTo s = (if truthyNum replyTo \<and> \<not> hasReplied s then s\<lparr>hasReplied := True\<rparr> else s)"

text \<open>The loop over the chunks of a text reply; it carries \<open>sentMessageId\<close>.\<close>

fun sendTextChunks ::
  "delivery_env \<Rightarrow> int option \<Rightarrow> telegram_chunk list \<Rightarrow> int option \<Rightarrow> delivery_state
     \<Rightarrow> (int option \<times> delivery_state) attempt" where
  "sendTextChunks env replyTo [] sentMessageId s = Completed (sentMessageId, s)"
| "sendTextChunks env replyTo (chunk # rest) sentMessageId s =
     (case sendTelegramText env (chunk_html chunk)
             \<lparr> replyToMessageId = replyTargetNow env replyTo s,
               opts_messageThreadId = messageThreadId env,
               textMode_html = True,
               plainText = Some (chunk_text chunk),
               opts_linkPreview = linkPreview env \<rparr> s of
        Threw s' \<Rightarrow> Threw s'
      | Completed (msgId, s1) \<Rightarrow>
          sendTextChunks env replyTo rest
            (if msgId \<noteq> 0 then Some msgId else sentMessageId)
            (markReplied replyTo s1))"

text \<open>The loop over the chunks of a caption's overflow, sent after the first media item.\<close>

fun sendFollowUpChunks ::
  "delivery_env \<Rightarrow> int option \<Rightarrow> telegram_chunk list \<Rightarrow> delivery_state
     \<Rightarrow> delivery_state attempt" where
  "sendFollowUpChunks env replyTo [] s = Completed s"
| "sendFollowUpChunks env replyTo (chunk # rest) s =
     (case sendTelegramText env (chunk_html chunk)
             \<lparr> replyToMessageId = replyTargetNow env replyTo s,
               opts_messageThreadId = messageThreadId env,
               textMode_html = True,
               plainText = Some (chunk_text chunk),
               opts_linkPreview = linkPreview env \<rparr> s of
        Threw s' \<Rightarrow> Threw s'
      | Completed (msgId, s1) \<Rightarrow> sendFollowUpChunks env replyTo rest (markReplied replyTo s1))"

text \<open>The end of the text branch: a truthy \<open>sentMessageId\<close> is recorded in the cache.\<close>

definition recordSent ::
  "delivery_env \<Rightarrow> reply_payload \<Rightarrow> int option \<Rightarrow> delivery_state \<Rightarrow> delivery_state" where
  "recordSent env reply sentMessageId s =
     (case sentMessageId of
        Some msgId \<Rightarrow>
          s\<lparr>sentMessages :=
              recordSentMessage (chatId env) msgId (isStatusMessage reply)
                (dateNow env (history s)) (sentMessages s)\<rparr>
      | None \<Rightarrow> s)"

definition shouldEditLast :: "delivery_env \<Rightarrow> delivery_state \<Rightarrow> bool" where
  "shouldEditLast env s =
     (case getLastSentMessage (sentMessages s) (chatId env) of
        None \<Rightarrow> False
      | Some l \<Rightarrow>
          isStatus l \<and> messageId l \<noteq> 0 \<and> dateNow env (history s) - timestamp l < 120000)"

text \<open>
  The branch for a reply without media: edit the last status message when there is a
  recent one, else send a status message as such, else send the text in chunks.
\<close>

definition deliverTextReply ::
  "delivery_env \<Rightarrow> reply_payload \<Rightarrow> int option \<Rightarrow> delivery_state \<Rightarrow> delivery_state attempt" where
  "deliverTextReply env reply replyTo s =
     (let (edited, s0) =
            (if shouldEditLast env s \<and> truthy (ptext reply) then
               let editId = messageId (the (getLastSentMessage (sentMessages s) (chatId env)));
                   returned = editMessageTelegram env (history s) editId (the (ptext reply))
               in (if returned then Some editId else None,
                   logged (EditMessageTelegram editId (the (ptext reply))) returned s)
             else (None, s))
      in if edited = None \<and> isStatusMessage reply \<and> truthy (ptext reply) then
           (case sendMessageTelegram env (history s0) (the (ptext reply)) (messageThreadId env) of
              None \<Rightarrow>
                Threw (logged (SendMessageTelegram (the (ptext reply)) (messageThreadId env)) False s0)
            | Some sentMessageId \<Rightarrow>
                Completed (recordSent env reply sentMessageId
                  (logged (SendMessageTelegram (the (ptext reply)) (messageThreadId env)) True s0)))
         else if edited = None then
           (case sendTextChunks env replyTo
                   (chunkText env (case ptext reply of Some t \<Rightarrow> t | None \<Rightarrow> [])) None s0 of
              Threw s' \<Rightarrow> Threw s'
            | Completed (sentMessageId, s1) \<Rightarrow> Completed (recordSent env reply sentMessageId s1))
         else Completed (recordSent env reply edited s0))"

text \<open>One media item goes out through the method that fits its kind.\<close>

definition callMedia ::
  "delivery_env \<Rightarrow> media_api \<Rightarrow> media_params \<Rightarrow> delivery_state \<Rightarrow> delivery_state attempt" where
  "callMedia env api params s =
     (if bot_sendMedia env (history s) api params
      then Completed (logged (Bot_sendMedia api params) True s)
      else Threw (logged (Bot_sendMedia api params) False s))"

definition sendOneMedia ::
  "delivery_env \<Rightarrow> reply_payload \<Rightarrow> web_media \<Rightarrow> jsstring \<Rightarrow> media_params \<Rightarrow> delivery_state
     \<Rightarrow> delivery_state attempt" where
  "sendOneMedia env reply media name params s =
     (if isGifMedia env media then callMedia env SendAnimation params s
      else if mediaKindFromMime env (contentType media) = Kind_image
      then callMedia env SendPhoto params s
      else if mediaKindFromMime env (contentType media) = Kind_video
      then callMedia env SendVideo params s
      else if mediaKindFromMime env (contentType media) = Kind_audio then
        let (useVoice, fallback) =
              resolveTelegramVoiceSend env (audioAsVoice reply) (contentType media) name;
            s1 = (case fallback of Some msg \<Rightarrow> logged (LogVerbose msg) True s | None \<Rightarrow> s)
        in if useVoice then
             if onVoiceRecording_defined env then
               if onVoiceRecording env (history s1)
               then callMedia env SendVoice params (logged OnVoiceRecording True s1)
               else Threw (logged OnVoiceRecording False s1)
             else callMedia env SendVoice params s1
           else callMedia env SendAudio params s1
      else callMedia env SendDocument params s)"

text \<open>
  The loop over the media of a reply. \<open>isFirst\<close> is the variable \<open>first\<close>, \<open>pending\<close>
  is \<open>pendingFollowUpText\<close>.
\<close>

fun sendMediaList ::
  "delivery_env \<Rightarrow> reply_payload \<Rightarrow> int option \<Rightarrow> jsstring list \<Rightarrow> bool \<Rightarrow> jsstring option
     \<Rightarrow> delivery_state \<Rightarrow> delivery_state attempt" where
  "sendMediaList env reply replyTo [] isFirst pending s = Completed s"
| "sendMediaList env reply replyTo (url # rest) isFirst pending s =
     (case loadWebMedia env (history s) url of
        None \<Rightarrow> Threw (logged (LoadWebMedia url) False s)
      | Some media \<Rightarrow>
          let s1 = logged (LoadWebMedia url) True s;
              name = (case fileName media of
                        Some f \<Rightarrow> f
                      | None \<Rightarrow> if isGifMedia env media then js ''animation.gif'' else js ''file'');
              split = splitTelegramCaption env (if isFirst then ptext reply else None);
              htmlCaption = (if truthy (fst split)
                             then Some (renderTelegramHtmlText env (the (fst split))) else None);
              pending1 = (if truthy (snd split) then snd split else pending);
              params = \<lparr> caption = htmlCaption,
                         media_reply_to_message_id = replyTargetNow env replyTo s1,
                         media_parse_mode_html = truthy htmlCaption,
                         media_message_thread_id =
                           buildTelegramThreadParams env (messageThreadId env) \<rparr>
          in (case sendOneMedia env reply media name params s1 of
                Threw s' \<Rightarrow> Threw s'
              | Completed s2 \<Rightarrow>
                  if truthy pending1 \<and> isFirst then
                    (case sendFollowUpChunks env replyTo (chunkText env (the pending1))
                            (markReplied replyTo s2) of
                       Threw s' \<Rightarrow> Threw s'
                     | Completed s3 \<Rightarrow> sendMediaList env reply replyTo rest False None s3)
                  else sendMediaList env reply replyTo rest False pending1 (markReplied replyTo s2)))"

definition hasMedia :: "reply_payload \<Rightarrow> bool" where
  "hasMedia reply =
     (truthy (mediaUrl reply) \<or> (case mediaUrls reply of Some urls \<Rightarrow> length urls > 0 | None \<Rightarrow> False))"

definition mediaList :: "reply_payload \<Rightarrow> jsstring list" where
  "mediaList reply =
     (case mediaUrls reply of
        Some urls \<Rightarrow>
          if length urls > 0 then urls
          else if truthy (mediaUrl reply) then [the (mediaUrl reply)] else []
      | None \<Rightarrow> if truthy (mediaUrl reply) then [the (mediaUrl reply)] else [])"

text \<open>The body of the loop over the replies.\<close>

definition deliverReply ::
  "delivery_env \<Rightarrow> reply_payload \<Rightarrow> delivery_state \<Rightarrow> delivery_state attempt" where
  "deliverReply env reply s =
     (if \<not> truthy (ptext reply) \<and> \<not> hasMedia reply then
        if audioAsVoice reply
        then Completed (logged (LogVerbose
               (js ''telegram reply has audioAsVoice without media/text; skipping'')) True s)
        else Completed (if runtime_error_defined env
                        then logged (Runtime_error (danger env (js ''reply missing text/media''))) True s
                        else s)
      else
        let replyTo = (if replyToMode env = Reply_off then None
                       else resolveTelegramReplyId env (replyToId reply))
        in if mediaList reply = [] then deliverTextReply env reply replyTo s
           else sendMediaList env reply replyTo (mediaList reply) True None s)"

fun deliverLoop :: "delivery_env \<Rightarrow> reply_payload list \<Rightarrow> delivery_state \<Rightarrow> delivery_state attempt" where
  "deliverLoop env [] s = Completed s"
| "deliverLoop env (reply # rest) s =
     (case deliverReply env reply s of
        Threw s' \<Rightarrow> Threw s'
      | Completed s' \<Rightarrow> deliverLoop env rest s')"

text \<open>\<open>deliverReplies\<close> starts with \<open>hasReplied = false\<close>, on the cache and history it finds.\<close>

definition deliverReplies ::
  "delivery_env \<Rightarrow> reply_payload list \<Rightarrow> sent_cache \<Rightarrow> delivery_history
     \<Rightarrow> delivery_state attempt" where
  "deliverReplies env replies cache h =
     deliverLoop env replies \<lparr> hasReplied = False, sentMessages = cache, history = h \<rparr>"

subsection \<open>What an observer of the chat sees\<close>

text \<open>
  The reply target of an outbound message: a call that put a message into the chat (a
  send that returned, or an edit that returned) with the reply-to id it carried.
\<close>

fun outboundTarget :: "delivery_call \<times> bool \<Rightarrow> int option option" where
  "outboundTarget (Bot_sendMessage txt params, True) = Some (reply_to_message_id params)"
| "outboundTarget (Bot_sendMedia api params, True) = Some (media_reply_to_message_id params)"
| "outboundTarget (EditMessageTelegram editId txt, True) = Some None"
| "outboundTarget (SendMessageTelegram txt thread, True) = Some None"
| "outboundTarget other = None"

definition outboundTargets :: "delivery_history \<Rightarrow> int option list" where
  "outboundTargets h = List.map_filter outboundTarget h"

text \<open>A reply that goes out as plain text: it has text, no media, and is no status message.\<close>

definition plainTextReply :: "reply_payload \<Rightarrow> bool" where
  "plainTextReply reply = (truthy (ptext reply) \<and> \<not> hasMedia reply \<and> \<not> isStatusMessage reply)"

text \<open>The last message recorded for the chat is not a status message.\<close>

definition noStatusPending :: "delivery_env \<Rightarrow> sent_cache \<Rightarrow> bool" where
  "noStatusPending env cache =
     (case getLastSentMessage cache (chatId env) of None \<Rightarrow> True | Some l \<Rightarrow> \<not> isStatus l)"

text \<open>The number of chunks a reply's text is cut into.\<close>

definition chunkCount :: "delivery_env \<Rightarrow> reply_payload \<Rightarrow> nat" where
  "chunkCount env reply = length (chunkText env (case ptext reply of Some t \<Rightarrow> t | None \<Rightarrow> []))"

text \<open>
  The reply targets of the \<open>n\<close> messages a text reply is sent as, for a reply-to id
  \<open>replyTo\<close> and the value \<open>replied\<close> of \<open>hasReplied\<close> before the first of them.
\<close>

definition chunkTargets :: "reply_to_mode \<Rightarrow> int option \<Rightarrow> bool \<Rightarrow> nat \<Rightarrow> int option list" where
  "chunkTargets m replyTo replied n =
     (case n of
        0 \<Rightarrow> []
      | Suc k \<Rightarrow>
          (if truthyNum replyTo \<and> (m = Reply_all \<or> \<not> replied) then replyTo else None) #
          replicate k (if truthyNum replyTo \<and> m = Reply_all then replyTo else None))"

subsection \<open>Concrete inputs\<close>

text \<open>
  A chat in which every call succeeds, every text is one chunk, and the reply-to id
  \<open>"5"\<close> resolves to 5; three text replies to message 5; and a cache whose last
  message for the chat is a status message sent at time 0.
\<close>

definition exampleDeliveryEnv :: "reply_to_mode \<Rightarrow> delivery_env" where
  "exampleDeliveryEnv m =
     \<lparr> chatId = js ''42'', replyToMode = m, textLimit = 4000, messageThreadId = None,
       chunkMode = None, linkPreview = None,
       runtime_error_defined = True, runtime_log_defined = True, onVoiceRecording_defined = False,
       chunkMarkdownTextWithMode = (\<lambda>t l. [t]),
       markdownToTelegramChunks = (\<lambda>t l. [\<lparr> chunk_html = t, chunk_text = t \<rparr>]),
       markdownToTelegramHtml = (\<lambda>t. t),
       renderTelegramHtmlText = (\<lambda>t. t),
       splitTelegramCaption = (\<lambda>t. (t, None)),
       resolveTelegramReplyId = (\<lambda>r. if r = Some (js ''5'') then Some 5 else None),
       buildTelegramThreadParams = (\<lambda>t. t),
       mediaKindFromMime = (\<lambda>c. Kind_document),
       isGifMedia = (\<lambda>m. False),
       resolveTelegramVoiceSend = (\<lambda>wants c n. (False, None)),
       danger = (\<lambda>t. t),
       dateNow = (\<lambda>h. 1000 + int (length h)),
       bot_sendMessage = (\<lambda>h t p. Inr (100 + int (length h))),
       bot_sendMedia = (\<lambda>h a p. True),
       editMessageTelegram = (\<lambda>h i t. True),
       sendMessageTelegram = (\<lambda>h t th. Some (Some (100 + int (length h)))),
       loadWebMedia = (\<lambda>h u. Some \<lparr> contentType = None, fileName = None \<rparr>),
       onVoiceRecording = (\<lambda>h. True) \<rparr>"

definition replyTo5 :: "jsstring \<Rightarrow> reply_payload" where
  "replyTo5 t = (textPayload t)\<lparr>replyToId := Some (js ''5'')\<rparr>"

definition threeReplies :: "reply_payload list" where
  "threeReplies = [replyTo5 (js ''one''), replyTo5 (js ''two''), replyTo5 (js ''three'')]"

definition statusCache :: sent_cache where
  "statusCache =
     [js ''42'' \<mapsto> \<lparr> messageIds = [7], timestamps = [(7, 0)],
                     lastSent = Some \<lparr> messageId = 7, timestamp = 0, isStatus = True \<rparr> \<rparr>]"

text \<open>Whether a delivery ran to its end, and the state it stopped in.\<close>

fun completed :: "delivery_state attempt \<Rightarrow> bool" where
  "completed (Completed s) = True"
| "completed (Threw s) = False"

fun finalState :: "delivery_state attempt \<Rightarrow> delivery_state" where
  "finalState (Completed s) = s"
| "finalState (Threw s) = s"

text \<open>A reply with nothing in it, and one that only asks for a voice note.\<close>

definition emptyReply :: reply_payload where
  "emptyReply =
     \<lparr> ptext = None, mediaUrl = None, mediaUrls = None, replyToId = None,
       audioAsVoice = False, isStatusMessage = False \<rparr>"

definition voiceOnlyReply :: reply_payload where
  "voiceOnlyReply = emptyReply\<lparr>audioAsVoice := True\<rparr>"

definition freshDelivery :: delivery_state where
  "freshDelivery = \<lparr> hasReplied = False, sentMessages = Map.empty, history = [] \<rparr>"

section \<open>Facts about strings\<close>

lemma js_Nil: "js [] = []"
  by (simp add: js_def)

lemma js_eq_Nil_iff: "js s = [] \<longleftrightarrow> s = []"
  by (simp add: js_def)

lemma trimEnd_snoc_keep: "\<not> isWhiteSpace c \<Longrightarrow> trimEnd (s @ [c]) = s @ [c]"
  by (simp add: trimEnd_def)

lemma endsWith_snoc_single: "endsWith (s @ [c]) [c]"
  by (simp add: endsWith_def)

lemma checkmark_not_space: "\<not> isWhiteSpace 0x2705"
  by (simp add: isWhiteSpace_def)

lemma dec_nat_digit: "n < 10 \<Longrightarrow> dec_nat n = [digit n]"
  by (simp add: dec_nat.simps)

lemma dec_nat_two: "10 \<le> n \<Longrightarrow> n < 100 \<Longrightarrow> dec_nat n = [digit (n div 10), digit (n mod 10)]"
  by (subst dec_nat.simps) (simp add: dec_nat_digit)

lemma padded_seconds:
  assumes "0 \<le> r" and "r < 60"
  shows "padStart (numberToString r) 2 (js ''0'') =
           [digit (nat r div 10), digit (nat r mod 10)]"
proof (cases "r < 10")
  case True
  with assms have "numberToString r = [digit (nat r)]"
    by (simp add: numberToString_def dec_nat_digit)
  moreover from True assms have "nat r div 10 = 0" and "nat r mod 10 = nat r"
    by simp_all
  ultimately show ?thesis
    by (simp add: padStart_def js_def digit_def)
next
  case False
  with assms have "numberToString r = [digit (nat r div 10), digit (nat r mod 10)]"
    by (simp add: numberToString_def dec_nat_two)
  then show ?thesis
    by (simp add: padStart_def)
qed

lemma formatElapsedTime_nonneg:
  assumes "0 \<le> s"
  shows "formatElapsedTime s =
           dec_nat (nat (s div 60)) @ js '':'' @
           [digit (nat (s mod 60) div 10), digit (nat (s mod 60) mod 10)]"
proof -
  from assms have rem: "js_rem s 60 = s mod 60"
    by (simp add: js_rem_def sgn_if)
  have range: "0 \<le> s mod 60" "s mod 60 < 60"
    by simp_all
  from assms have "0 \<le> s div 60"
    by (simp add: pos_imp_zdiv_nonneg_iff)
  then have "numberToString (s div 60) = dec_nat (nat (s div 60))"
    by (simp add: numberToString_def)
  with rem padded_seconds [OF range] show ?thesis
    by (simp add: formatElapsedTime_def Let_def)
qed

section \<open>Marking and rendering: the claims\<close>

text \<open>
  Claim C10. \<open>markResponseComplete\<close> is idempotent and conservative: with status
  updates disabled or checkmark marking disabled the text comes back unchanged; a text
  whose trimmed form already ends with the checkmark comes back unchanged; marking
  twice gives what marking once gives; \<open>undefined\<close> and the empty string come back
  as they are.
\<close>

theorem markResponseComplete_idempotent:
  "(\<not> enabled (resolveStatusUpdateConfig cfg) \<or>
      \<not> markFinalWithCheckmark (resolveStatusUpdateConfig cfg)
      \<longrightarrow> markResponseComplete txt cfg = txt)
   \<and> (endsWith (trimEnd t) [0x2705] \<longrightarrow> markResponseComplete (Some t) cfg = Some t)
   \<and> markResponseComplete (markResponseComplete txt cfg) cfg
       = markResponseComplete txt cfg
   \<and> markResponseComplete None cfg = None
   \<and> markResponseComplete (Some []) cfg = Some []"
proof (intro conjI impI)
  assume "\<not> enabled (resolveStatusUpdateConfig cfg) \<or>
          \<not> markFinalWithCheckmark (resolveStatusUpdateConfig cfg)"
  then show "markResponseComplete txt cfg = txt"
    by (auto simp: markResponseComplete_def Let_def split: option.splits)
next
  assume "endsWith (trimEnd t) [0x2705]"
  then show "markResponseComplete (Some t) cfg = Some t"
    by (simp add: markResponseComplete_def Let_def)
next
  show "markResponseComplete (markResponseComplete txt cfg) cfg
          = markResponseComplete txt cfg"
  proof (cases "markResponseComplete txt cfg = txt")
    case True
    then show ?thesis by simp
  next
    case False
    then obtain u where u: "txt = Some u" "u \<noteq> []"
      and on: "enabled (resolveStatusUpdateConfig cfg)"
              "markFinalWithCheckmark (resolveStatusUpdateConfig cfg)"
      and marked: "markResponseComplete txt cfg = Some (trimEnd u @ js '' '' @ [0x2705])"
      by (auto simp: markResponseComplete_def Let_def split: option.splits if_splits)
    let ?r = "(trimEnd u @ js '' '') @ [0x2705]"
    have "trimEnd ?r = ?r"
      by (rule trimEnd_snoc_keep) (rule checkmark_not_space)
    moreover have "endsWith ?r [0x2705]"
      by (rule endsWith_snoc_single)
    ultimately have "markResponseComplete (Some ?r) cfg = Some ?r"
      by (simp add: markResponseComplete_def Let_def)
    with marked show ?thesis by simp
  qed
qed (simp_all add: markResponseComplete_def)

theorem markResponseComplete_idempotent_witness:
  "markResponseComplete (Some (js ''done''))
      (Some \<lparr> opt_enabled = Some False, opt_mode = None, opt_updateIntervalMs = None,
              opt_showPhases = None, opt_showElapsedTime = None,
              opt_markFinalWithCheckmark = None, opt_elapsedTimeThresholdMs = None \<rparr>)
     = Some (js ''done'')
   \<and> endsWith (trimEnd (js ''ok '' @ [0x2705] @ js '' '')) [0x2705]
   \<and> markResponseComplete (Some (js ''ok '' @ [0x2705] @ js '' ''))
        (Some \<lparr> opt_enabled = Some True, opt_mode = None, opt_updateIntervalMs = None,
                opt_showPhases = None, opt_showElapsedTime = None,
                opt_markFinalWithCheckmark = None, opt_elapsedTimeThresholdMs = None \<rparr>)
       = Some (js ''ok '' @ [0x2705] @ js '' '')
   \<and> markResponseComplete (Some (js ''ok  ''))
        (Some \<lparr> opt_enabled = Some True, opt_mode = None, opt_updateIntervalMs = None,
                opt_showPhases = None, opt_showElapsedTime = None,
                opt_markFinalWithCheckmark = None, opt_elapsedTimeThresholdMs = None \<rparr>)
       = Some (js ''ok '' @ [0x2705])"
  using markResponseComplete_idempotent
    [of "Some \<lparr> opt_enabled = Some False, opt_mode = None, opt_updateIntervalMs = None,
              opt_showPhases = None, opt_showElapsedTime = None,
              opt_markFinalWithCheckmark = None, opt_elapsedTimeThresholdMs = None \<rparr>"
        "Some (js ''done'')" "js ''ok '' @ [0x2705] @ js '' ''"]
    markResponseComplete_idempotent
    [of "Some \<lparr> opt_enabled = Some True, opt_mode = None, opt_updateIntervalMs = None,
              opt_showPhases = None, opt_showElapsedTime = None,
              opt_markFinalWithCheckmark = None, opt_elapsedTimeThresholdMs = None \<rparr>"
        "Some (js ''ok  '')" "js ''ok '' @ [0x2705] @ js '' ''"]
  by (simp add: markResponseComplete_def resolveStatusUpdateConfig_def DEFAULT_CONFIG_def
      endsWith_def trimEnd_def isWhiteSpace_def js_def Let_def)

text \<open>
  Claim C6. For every phase, elapsed-seconds value and resolved configuration the
  rendered status text is the phase part (emoji, blank, label) when phases are shown,
  followed by the parenthesised elapsed time when elapsed time is shown and
  \<open>elapsedSeconds * 1000\<close> has reached \<open>elapsedTimeThresholdMs\<close>; below the
  threshold the elapsed time never appears; for a non-negative number of seconds the
  elapsed time reads minutes, a colon and two digits of seconds; with neither part
  enabled the text is exactly \<open>Processing...\<close>.
\<close>

theorem formatStatusMessage_composition:
  "formatStatusMessage ph s cfg =
     (let phasePart = PHASE_EMOJI ph @ js '' '' @ PHASE_MESSAGES ph;
          timePart = js ''('' @ formatElapsedTime s @ js '')'';
          timeShown = (showElapsedTime cfg \<and> elapsedTimeThresholdMs cfg \<le> s * 1000)
      in if showPhases cfg \<and> timeShown then phasePart @ js '' '' @ timePart
         else if showPhases cfg then phasePart
         else if timeShown then timePart
         else js ''Processing...'')
   \<and> (s * 1000 < elapsedTimeThresholdMs cfg \<longrightarrow>
        formatStatusMessage ph s cfg =
          (if showPhases cfg then PHASE_EMOJI ph @ js '' '' @ PHASE_MESSAGES ph
           else js ''Processing...''))
   \<and> (0 \<le> s \<longrightarrow>
        formatElapsedTime s =
          dec_nat (nat (s div 60)) @ js '':'' @
          [digit (nat (s mod 60) div 10), digit (nat (s mod 60) mod 10)])
   \<and> (\<not> showPhases cfg \<and> \<not> showElapsedTime cfg \<longrightarrow>
        formatStatusMessage ph s cfg = js ''Processing...'')"
proof -
  have emoji: "PHASE_EMOJI ph \<noteq> []"
    by (cases ph) simp_all
  have paren: "js ''('' @ formatElapsedTime s @ js '')'' \<noteq> []"
    by (simp add: js_def)
  have main: "formatStatusMessage ph s cfg =
     (let phasePart = PHASE_EMOJI ph @ js '' '' @ PHASE_MESSAGES ph;
          timePart = js ''('' @ formatElapsedTime s @ js '')'';
          timeShown = (showElapsedTime cfg \<and> elapsedTimeThresholdMs cfg \<le> s * 1000)
      in if showPhases cfg \<and> timeShown then phasePart @ js '' '' @ timePart
         else if showPhases cfg then phasePart
         else if timeShown then timePart
         else js ''Processing...'')"
    using emoji paren by (simp add: formatStatusMessage_def Let_def)
  show ?thesis
  proof (intro conjI impI)
    show "formatStatusMessage ph s cfg =
     (let phasePart = PHASE_EMOJI ph @ js '' '' @ PHASE_MESSAGES ph;
          timePart = js ''('' @ formatElapsedTime s @ js '')'';
          timeShown = (showElapsedTime cfg \<and> elapsedTimeThresholdMs cfg \<le> s * 1000)
      in if showPhases cfg \<and> timeShown then phasePart @ js '' '' @ timePart
         else if showPhases cfg then phasePart
         else if timeShown then timePart
         else js ''Processing...'')"
      by (rule main)
  next
    assume "s * 1000 < elapsedTimeThresholdMs cfg"
    then show "formatStatusMessage ph s cfg =
          (if showPhases cfg then PHASE_EMOJI ph @ js '' '' @ PHASE_MESSAGES ph
           else js ''Processing...'')"
      by (simp add: main Let_def)
  next
    assume "0 \<le> s"
    then show "formatElapsedTime s =
          dec_nat (nat (s div 60)) @ js '':'' @
          [digit (nat (s mod 60) div 10), digit (nat (s mod 60) mod 10)]"
      by (rule formatElapsedTime_nonneg)
  next
    assume "\<not> showPhases cfg \<and> \<not> showElapsedTime cfg"
    then show "formatStatusMessage ph s cfg = js ''Processing...''"
      by (simp add: main Let_def)
  qed
qed

theorem formatStatusMessage_composition_witness:
  "formatStatusMessage Processing_tools 75 DEFAULT_CONFIG
      = [0xD83D, 0xDD27] @ js '' Executing tools (1:15)''
   \<and> (2::int) * 1000 < elapsedTimeThresholdMs DEFAULT_CONFIG
   \<and> formatStatusMessage Sending_query 2 DEFAULT_CONFIG
       = [0x23F3] @ js '' Sending query to AI model''
   \<and> (0::int) \<le> 75 \<and> formatElapsedTime 75 = js ''1:15''
   \<and> formatStatusMessage Complete 75
        (DEFAULT_CONFIG\<lparr>showPhases := False, showElapsedTime := False\<rparr>)
       = js ''Processing...''"
  using formatStatusMessage_composition [of Processing_tools 75 DEFAULT_CONFIG]
    formatStatusMessage_composition [of Sending_query 2 DEFAULT_CONFIG]
    formatStatusMessage_composition
      [of Complete 75 "DEFAULT_CONFIG\<lparr>showPhases := False, showElapsedTime := False\<rparr>"]
  by (simp add: DEFAULT_CONFIG_def Let_def js_def digit_def dec_nat.simps)

section \<open>The status controller: facts and claims\<close>

text \<open>\<open>start\<close> when nothing runs between its two halves.\<close>

lemma start_uninterrupted:
  "start now c =
     (if \<not> isEnabled c \<or> stopped c then c
      else
        let c1 = sendUpdate now c
        in if showElapsedTime (config c1) then startUpdateTimer c1 else c1)"
  by (simp add: start_def start_before_await_def start_after_await_def Let_def)

text \<open>
  A \<open>complete\<close> or a \<open>setPhase\<close> to the complete phase that arrives while \<open>start\<close>
  is still awaiting its first render is followed by an armed timer; the first tick of
  that timer disarms it.
\<close>

lemma start_interleaved_with_complete:
  "fst (start_before_await 0 liveController)
   \<and> updateTimer (start_after_await
        (snd (complete 1000 (Some (js ''ok'')) (snd (start_before_await 0 liveController)))))
   \<and> updateTimer (start_after_await
        (setPhase 1000 Complete (snd (start_before_await 0 liveController))))
   \<and> \<not> updateTimer (timerTick 2000 (start_after_await
        (snd (complete 1000 (Some (js ''ok'')) (snd (start_before_await 0 liveController))))))"
  by code_simp

lemma stopUpdateTimer_fields [simp]:
  "config (stopUpdateTimer c) = config c"
  "callbacks (stopUpdateTimer c) = callbacks c"
  "state (stopUpdateTimer c) = state c"
  "stopped (stopUpdateTimer c) = stopped c"
  "outbox (stopUpdateTimer c) = outbox c"
  "updateTimer (stopUpdateTimer c) = False"
  by (simp_all add: stopUpdateTimer_def)

lemma tryDeleteStatus_fields [simp]:
  "config (tryDeleteStatus c) = config c"
  "state (tryDeleteStatus c) = state c"
  "stopped (tryDeleteStatus c) = stopped c"
  "updateTimer (tryDeleteStatus c) = updateTimer c"
  by (simp_all add: tryDeleteStatus_def split: option.splits)

lemma sendUpdate_keeps:
  "config (sendUpdate now c) = config c"
  "stopped (sendUpdate now c) = stopped c"
  "updateTimer (sendUpdate now c) = updateTimer c"
  "phase (state (sendUpdate now c)) = phase (state c)"
  "isComplete (state (sendUpdate now c)) = isComplete (state c)"
  by (simp_all add: sendUpdate_def Let_def split: settled.splits)

lemma isEnabled_cong: "config c' = config c \<Longrightarrow> isEnabled c' = isEnabled c"
  by (simp add: isEnabled_def)

lemma complete_stopped: "stopped c \<Longrightarrow> complete now finalText c = (None, c)"
  by (simp add: complete_def)

lemma complete_stops: "\<not> stopped c \<Longrightarrow> stopped (snd (complete now finalText c))"
  by (simp add: complete_def Let_def)

lemma complete_text:
  "\<not> stopped c \<Longrightarrow>
   fst (complete now finalText c) =
     (if isEnabled c \<and> truthy finalText \<and> markFinalWithCheckmark (config c)
      then Some (trimEnd (the finalText) @ js '' _('' @
                 formatElapsedTime ((now - startedAt (state c)) div 1000) @ js '')_'')
      else finalText)"
  by (simp add: complete_def Let_def isEnabled_def)

text \<open>
  Claim C4, as the code has it. Only the first \<open>complete\<close> on a controller that is not
  yet stopped returns a text: the final text with the elapsed-time suffix appended once
  when the controller is enabled, the text is non-empty and marking is on, and the final
  text unchanged otherwise. That call stops the controller; every later call, and every
  call on a stopped controller, returns \<open>undefined\<close> and leaves the controller as it
  is, so no suffix is ever appended a second time.
\<close>

theorem complete_first_call_only:
  "(stopped c \<longrightarrow> complete now finalText c = (None, c))
   \<and> (\<not> stopped c \<longrightarrow>
        stopped (snd (complete now finalText c))
        \<and> complete now' finalText' (snd (complete now finalText c))
            = (None, snd (complete now finalText c))
        \<and> fst (complete now finalText c) =
            (if isEnabled c \<and> truthy finalText \<and> markFinalWithCheckmark (config c)
             then Some (trimEnd (the finalText) @ js '' _('' @
                        formatElapsedTime ((now - startedAt (state c)) div 1000) @ js '')_'')
             else finalText))"
  using complete_stopped complete_stops complete_text by blast

theorem complete_first_call_only_witness:
  "\<not> stopped liveController
   \<and> stopped (snd (complete 5000 (Some (js ''hi'')) liveController))
   \<and> complete 9000 (Some (js ''hi'')) (snd (complete 5000 (Some (js ''hi'')) liveController))
       = (None, snd (complete 5000 (Some (js ''hi'')) liveController))
   \<and> fst (complete 5000 (Some (js ''hi'')) liveController) = Some (js ''hi _(0:05)_'')
   \<and> stopped (cleanup liveController)
   \<and> complete 5000 (Some (js ''hi'')) (cleanup liveController) = (None, cleanup liveController)"
proof -
  let ?c = "liveController"
  have live: "\<not> stopped ?c"
    by (simp add: liveController_def createStatusUpdateController_def)
  have on: "isEnabled ?c \<and> markFinalWithCheckmark (config ?c) \<and> startedAt (state ?c) = 0"
    by (simp add: liveController_def createStatusUpdateController_def enabledOnly_def isEnabled_def
        resolveStatusUpdateConfig_def DEFAULT_CONFIG_def)
  have fmt: "trimEnd (js ''hi'') @ js '' _('' @ formatElapsedTime 5 @ js '')_'' = js ''hi _(0:05)_''"
    by (simp add: trimEnd_def isWhiteSpace_def js_def
      formatElapsedTime_def js_rem_def numberToString_def padStart_def dec_nat.simps digit_def)
  have cleaned: "stopped (cleanup ?c)"
    by (simp add: cleanup_def Let_def)
  from complete_first_call_only [of ?c 5000 "Some (js ''hi'')" 9000 "Some (js ''hi'')"]
    complete_first_call_only [of "cleanup ?c" 5000 "Some (js ''hi'')" 9000 "Some (js ''hi'')"]
    live on fmt cleaned
  show ?thesis
    by (simp add: truthy_def js_eq_Nil_iff)
qed

text \<open>
  The claim as stated (two calls of \<open>complete\<close> with the same text yield the same
  text) fails: on a fresh enabled controller the first call returns the marked text and
  the second returns \<open>undefined\<close>.
\<close>

theorem complete_twice_counterexample:
  "fst (complete 5000 (Some (js ''hi''))
         liveController)
     = Some (js ''hi _(0:05)_'')
   \<and> fst (complete 5000 (Some (js ''hi''))
           (snd (complete 5000 (Some (js ''hi''))
                  liveController)))
     = None"
  by (simp add: complete_def liveController_def createStatusUpdateController_def enabledOnly_def
      noopStatusCallbacks_def resolveStatusUpdateConfig_def DEFAULT_CONFIG_def isEnabled_def
      truthy_def Let_def stopUpdateTimer_def trimEnd_def isWhiteSpace_def js_def
      formatElapsedTime_def js_rem_def numberToString_def padStart_def dec_nat.simps digit_def)

lemma setPhase_same: "p = phase (state c) \<Longrightarrow> setPhase now p c = c"
  by (simp add: setPhase_def)

lemma setPhase_ignored:
  "\<not> isEnabled c \<or> stopped c \<or> isComplete (state c) \<Longrightarrow> setPhase now p c = c"
  by (auto simp: setPhase_def)

lemma setPhases_ignored:
  "\<not> isEnabled c \<or> stopped c \<or> isComplete (state c) \<Longrightarrow> setPhases calls c = c"
  by (induction calls) (auto simp: setPhase_ignored)

lemma setPhase_Complete_outbox: "outbox (setPhase now Complete c) = outbox c"
  by (simp add: setPhase_def Let_def)

lemma setPhase_Complete_live:
  assumes "isEnabled c" "\<not> stopped c" "\<not> isComplete (state c)" "phase (state c) \<noteq> Complete"
  shows "isComplete (state (setPhase now Complete c))"
    and "\<not> updateTimer (setPhase now Complete c)"
    and "phase (state (setPhase now Complete c)) = Complete"
  using assms by (auto simp: setPhase_def Let_def)

lemma setPhase_agree: "phase_flag_agree c \<Longrightarrow> phase_flag_agree (setPhase now p c)"
  by (auto simp: phase_flag_agree_def setPhase_def Let_def sendUpdate_keeps)

lemma setPhases_agree: "phase_flag_agree c \<Longrightarrow> phase_flag_agree (setPhases calls c)"
  by (induction calls arbitrary: c) (auto simp: setPhase_agree)

lemma setPhases_append: "setPhases (xs @ ys) c = setPhases ys (setPhases xs c)"
  by (induction xs arbitrary: c) auto

lemma setPhase_config: "config (setPhase now p c) = config c"
  by (simp add: setPhase_def Let_def sendUpdate_keeps)

lemma setPhase_Complete_then:
  assumes "phase_flag_agree c"
  shows "outbox (setPhases later (setPhase now Complete c)) = outbox c"
proof -
  let ?d = "setPhase now Complete c"
  have "\<not> isEnabled ?d \<or> stopped ?d \<or> isComplete (state ?d)"
    using assms
    by (auto simp: phase_flag_agree_def setPhase_def Let_def isEnabled_def)
  then have "setPhases later ?d = ?d"
    by (rule setPhases_ignored)
  then show ?thesis
    by (simp add: setPhase_Complete_outbox)
qed

text \<open>
  Claim C5. For every controller and every sequence of \<open>setPhase\<close> calls: a
  transition to the current phase changes nothing and renders nothing; a transition to
  \<open>complete\<close> never adds a render to the outbox, and on a live controller it sets the
  completion flag and stops the timer; once the controller is complete or stopped every
  further sequence of calls is ignored; and in any sequence, what is rendered up to a
  call with \<open>complete\<close> is all that is ever rendered.
\<close>

theorem setPhase_transitions:
  "(p = phase (state c) \<longrightarrow> setPhase now p c = c)
   \<and> outbox (setPhase now Complete c) = outbox c
   \<and> (isEnabled c \<and> \<not> stopped c \<and> \<not> isComplete (state c) \<and> phase (state c) \<noteq> Complete \<longrightarrow>
        isComplete (state (setPhase now Complete c)) \<and>
        \<not> updateTimer (setPhase now Complete c) \<and>
        phase (state (setPhase now Complete c)) = Complete)
   \<and> (stopped c \<or> isComplete (state c) \<longrightarrow> setPhases calls c = c)
   \<and> (phase_flag_agree c \<longrightarrow>
        outbox (setPhases (earlier @ (now, Complete) # later) c) = outbox (setPhases earlier c))"
proof (intro conjI impI)
  assume "phase_flag_agree c"
  then have "phase_flag_agree (setPhases earlier c)"
    by (rule setPhases_agree)
  then show "outbox (setPhases (earlier @ (now, Complete) # later) c) = outbox (setPhases earlier c)"
    by (simp add: setPhases_append setPhase_Complete_then)
qed (auto simp: setPhase_same setPhase_Complete_outbox setPhase_Complete_live setPhases_ignored)

lemma liveController_facts:
  "isEnabled liveController" "\<not> stopped liveController" "\<not> isComplete (state liveController)"
  "phase (state liveController) = Sending_query" "phase_flag_agree liveController"
  "outbox liveController = []"
  by (simp_all add: liveController_def createStatusUpdateController_def enabledOnly_def
      isEnabled_def resolveStatusUpdateConfig_def DEFAULT_CONFIG_def phase_flag_agree_def)

theorem setPhase_transitions_witness:
  "setPhase 1000 Sending_query liveController = liveController
   \<and> outbox (setPhase 2000 Complete liveController) = []
   \<and> isComplete (state (setPhase 2000 Complete liveController))
   \<and> \<not> updateTimer (setPhase 2000 Complete liveController)
   \<and> phase (state (setPhase 2000 Complete liveController)) = Complete
   \<and> setPhases [(3000, Generating_response)] (setPhase 2000 Complete liveController)
       = setPhase 2000 Complete liveController
   \<and> outbox (setPhases ([(1000, Processing_tools)] @ (2000, Complete) # [(3000, Generating_response)])
        liveController)
       = outbox (setPhases [(1000, Processing_tools)] liveController)"
  using setPhase_transitions [of Sending_query liveController 1000 "[]" "[]" "[]"]
    setPhase_transitions [of Complete liveController 2000 "[]"
      "[(1000, Processing_tools)]" "[(3000, Generating_response)]"]
    setPhase_transitions [of Complete "setPhase 2000 Complete liveController" 2000
      "[(3000, Generating_response)]" "[]" "[]"]
    liveController_facts
  by simp

section \<open>The runner: facts and claims\<close>

lemma unlinkedPaths_append: "unlinkedPaths (xs @ ys) = unlinkedPaths xs @ unlinkedPaths ys"
  by (induction xs rule: unlinkedPaths.induct) simp_all

lemma unlinkedPaths_unlinkAll: "unlinkedPaths (unlinkAll env cs es) = unlinkedPaths es @ cs"
  by (induction cs arbitrary: es) (simp_all add: unlinkedPaths_append)

lemma unlinkAll_extends: "\<exists>more. unlinkAll env cs es = es @ more"
proof (induction cs arbitrary: es)
  case Nil
  then show ?case by simp
next
  case (Cons c cs)
  from Cons [of "es @ [UnlinkSync c (unlinkThrows env es c)]"]
  show ?case by auto
qed

lemma unlinkAll_keeps: "e \<in> set es \<Longrightarrow> e \<in> set (unlinkAll env cs es)"
  using unlinkAll_extends [of env cs es] by auto

lemma transcriptCandidates_cases:
  "transcriptCandidates env sid prev agent =
     (let resolved = resolveSessionFilePath env sid prev agent;
          canonical = resolveSessionTranscriptPath env sid agent None
      in if resolved \<noteq> [] \<and> resolved \<noteq> canonical then [resolved, canonical] else [canonical])"
  by (auto simp: transcriptCandidates_def Let_def)

text \<open>
  Claim C3. Whenever the session key, the session store or the store path is
  unavailable, \<open>resetSession\<close> returns false and leaves everything as it was: the
  session entry and store, the followup run, and the effects (nothing is written to the
  store file, nothing is logged, no transcript is unlinked).
\<close>

theorem resetSession_unavailable:
  "\<not> truthy (sessionKey p) \<or> activeSessionStore s = None \<or> \<not> truthy (storePath p)
   \<Longrightarrow> resetSession env p opts now s = (False, s)"
  by (auto simp: resetSession_def truthy_def split: option.splits)

theorem resetSession_unavailable_witness:
  "\<not> truthy (sessionKey (steerParams\<lparr>sessionKey := None\<rparr>))
   \<and> resetSession exampleRunnerEnv (steerParams\<lparr>sessionKey := None\<rparr>)
        \<lparr> failureLabel = js ''role ordering conflict'', buildLogMessage = (\<lambda>n. n),
          cleanupTranscripts = True \<rparr> 1000 exampleState
       = (False, exampleState)"
  using resetSession_unavailable [of "steerParams\<lparr>sessionKey := None\<rparr>" exampleState
      exampleRunnerEnv "\<lparr> failureLabel = js ''role ordering conflict'', buildLogMessage = (\<lambda>n. n),
          cleanupTranscripts = True \<rparr>" 1000]
  by (simp add: truthy_def steerParams_def)


lemma resetSession_available:
  assumes key: "sessionKey p = Some key" "key \<noteq> []"
    and store: "activeSessionStore s = Some store"
    and path: "storePath p = Some path" "path \<noteq> []"
    and prev: "prevEntryOf store key (activeSessionEntry s) = Some (Session_entry prevEntry)"
  shows "resetSession env p opts now s =
    (let nextSessionId = randomUUID env (effects s);
         agentId = resolveAgentIdFromSessionKey env (Some key);
         nextSessionFile = resolveSessionTranscriptPath env nextSessionId agentId (MessageThreadId p);
         nextEntry = prevEntry\<lparr>sessionId := nextSessionId, updatedAt := now,
                       systemSent := Some False, abortedLastRun := Some False,
                       sessionFile := Some nextSessionFile\<rparr>;
         written = effects s @ [UpdateSessionStore path key nextEntry];
         effects1 = (case storeWriteError env (effects s) of
                       None \<Rightarrow> written
                     | Some err \<Rightarrow>
                         written @
                         [RuntimeError (js ''Failed to persist session reset after '' @
                            failureLabel opts @ js '' ('' @ key @ js ''): '' @ err)]);
         effects2 = effects1 @ [RuntimeError (buildLogMessage opts nextSessionId)];
         effects3 = (if cleanupTranscripts opts \<and> sessionId prevEntry \<noteq> []
                     then unlinkAll env
                            (transcriptCandidates env (sessionId prevEntry) prevEntry agentId) effects2
                     else effects2)
     in (True,
         s\<lparr>activeSessionEntry := Some nextEntry,
           activeSessionStore := Some (store(key \<mapsto> nextEntry)),
           activeIsNewSession := True,
           run_sessionId := nextSessionId,
           run_sessionFile := Some nextSessionFile,
           effects := effects3\<rparr>))"
  using assms by (simp add: resetSession_def nextEntryFrom_def Let_def truthy_def)

text \<open>
  The previous entry is the store's own entry for the key when there is one, and the
  active entry when the store has no property of that name.
\<close>

lemma prevEntryOf_own:
  "store key = Some e \<Longrightarrow> prevEntryOf store key active = Some (Session_entry e)"
  by (simp add: prevEntryOf_def readStore_def)

lemma prevEntryOf_active:
  "store key = None \<Longrightarrow> \<not> objectPrototypeMember key \<Longrightarrow>
   prevEntryOf store key active = map_option Session_entry active"
  by (simp add: prevEntryOf_def readStore_def)

text \<open>
  A session key that names a member of \<open>Object.prototype\<close>: with an empty store and no
  active entry the lookup still finds something, so the reset goes through (it returns
  true and installs an entry with the new id) and, the member having no \<open>sessionId\<close>,
  unlinks nothing.
\<close>

lemma resetSession_inherited_member:
  "fst (resetSessionAfterRoleOrderingConflict exampleRunnerEnv
          (steerParams\<lparr>sessionKey := Some (js ''constructor'')\<rparr>) (js ''bad order'') 1000
          (exampleState\<lparr>activeSessionEntry := None, activeSessionStore := Some Map.empty\<rparr>))
   \<and> map_option sessionId (activeSessionEntry (snd (resetSessionAfterRoleOrderingConflict
          exampleRunnerEnv (steerParams\<lparr>sessionKey := Some (js ''constructor'')\<rparr>)
          (js ''bad order'') 1000
          (exampleState\<lparr>activeSessionEntry := None, activeSessionStore := Some Map.empty\<rparr>))))
       = Some (js ''uuid-2'')
   \<and> unlinkedPaths (effects (snd (resetSessionAfterRoleOrderingConflict exampleRunnerEnv
          (steerParams\<lparr>sessionKey := Some (js ''constructor'')\<rparr>) (js ''bad order'') 1000
          (exampleState\<lparr>activeSessionEntry := None, activeSessionStore := Some Map.empty\<rparr>))))
       = []"
  by (simp add: resetSessionAfterRoleOrderingConflict_def resetSession_def prevEntryOf_def
      readStore_def objectPrototypeMember_def nextEntryFrom_def steerParams_def exampleState_def
      exampleRunnerEnv_def truthy_def Let_def js_def)

text \<open>
  Claim C2, as the code has it. A reset after a role-ordering conflict, with a non-empty
  session key, a session store and a non-empty store path, when there is a previous
  session entry (the store's own entry for the key, else the active one): the call
  returns true; the active entry and the store's entry are the new entry, whose id is
  the one \<open>crypto.randomUUID()\<close> has just returned (nothing compares it with the old
  id), with \<open>systemSent\<close> and \<open>abortedLastRun\<close> false and \<open>updatedAt\<close> the
  current time; the new entry is handed to the store write, and a failing write is
  logged while the in-memory state advances all the same; the followup run gets the new
  id; and, when the old session id is non-empty, \<open>unlinkSync\<close> is tried on the path
  resolved from the session store (when it is non-empty and not the canonical one) and
  on the canonical by-id path, whatever the unlinks answer. When the old session id is
  empty, nothing is unlinked.
\<close>

theorem resetSession_role_conflict:
  assumes key: "sessionKey p = Some key" "key \<noteq> []"
    and store: "activeSessionStore s = Some store"
    and path: "storePath p = Some path" "path \<noteq> []"
    and prev: "prevEntryOf store key (activeSessionEntry s) = Some (Session_entry prevEntry)"
    and result: "resetSessionAfterRoleOrderingConflict env p reason now s = (ok, s')"
    and names: "agentId = resolveAgentIdFromSessionKey env (Some key)"
      "resolved = resolveSessionFilePath env (sessionId prevEntry) prevEntry agentId"
      "canonical = resolveSessionTranscriptPath env (sessionId prevEntry) agentId None"
  shows "ok
    \<and> (\<exists>nextEntry.
          activeSessionEntry s' = Some nextEntry
          \<and> activeSessionStore s' = Some (store(key \<mapsto> nextEntry))
          \<and> sessionId nextEntry = randomUUID env (effects s)
          \<and> systemSent nextEntry = Some False
          \<and> abortedLastRun nextEntry = Some False
          \<and> updatedAt nextEntry = now
          \<and> UpdateSessionStore path key nextEntry \<in> set (effects s')
          \<and> (\<forall>err. storeWriteError env (effects s) = Some err \<longrightarrow>
                RuntimeError (js ''Failed to persist session reset after role ordering conflict ('' @
                  key @ js ''): '' @ err) \<in> set (effects s')))
    \<and> run_sessionId s' = randomUUID env (effects s)
    \<and> activeIsNewSession s'
    \<and> unlinkedPaths (effects s') = unlinkedPaths (effects s) @
         (if sessionId prevEntry = [] then []
          else if resolved \<noteq> [] \<and> resolved \<noteq> canonical then [resolved, canonical]
          else [canonical])"
proof -
  let ?agent = "resolveAgentIdFromSessionKey env (Some key)"
  let ?next = "randomUUID env (effects s)"
  let ?file = "resolveSessionTranscriptPath env ?next ?agent (MessageThreadId p)"
  let ?entry = "prevEntry\<lparr>sessionId := ?next, updatedAt := now,
                       systemSent := Some False, abortedLastRun := Some False,
                       sessionFile := Some ?file\<rparr>"
  let ?written = "effects s @ [UpdateSessionStore path key ?entry]"
  let ?e1 = "(case storeWriteError env (effects s) of
                       None \<Rightarrow> ?written
                     | Some err \<Rightarrow>
                         ?written @
                         [RuntimeError (js ''Failed to persist session reset after '' @
                            js ''role ordering conflict'' @ js '' ('' @ key @ js ''): '' @ err)])"
  let ?e2 = "?e1 @ [RuntimeError
                (js ''Role ordering conflict ('' @ reason @ js ''). Restarting session '' @
                 printedKey (sessionKey p) @ js '' -> '' @ ?next @ js ''.'')]"
  let ?e3 = "if sessionId prevEntry \<noteq> []
             then unlinkAll env (transcriptCandidates env (sessionId prevEntry) prevEntry ?agent) ?e2
             else ?e2"
  let ?tried = "if sessionId prevEntry = [] then []
          else if resolved \<noteq> [] \<and> resolved \<noteq> canonical then [resolved, canonical]
          else [canonical]"
  have "resetSessionAfterRoleOrderingConflict env p reason now s =
          (True, s\<lparr>activeSessionEntry := Some ?entry,
           activeSessionStore := Some (store(key \<mapsto> ?entry)),
           activeIsNewSession := True,
           run_sessionId := ?next,
           run_sessionFile := Some ?file,
           effects := ?e3\<rparr>)"
    unfolding resetSessionAfterRoleOrderingConflict_def
    by (simp add: resetSession_available [OF key store path prev] Let_def
        cong: option.case_cong)
  with result have ok: "ok"
    and s': "s' = s\<lparr>activeSessionEntry := Some ?entry,
           activeSessionStore := Some (store(key \<mapsto> ?entry)),
           activeIsNewSession := True,
           run_sessionId := ?next,
           run_sessionFile := Some ?file,
           effects := ?e3\<rparr>"
    by simp_all
  have written: "UpdateSessionStore path key ?entry \<in> set ?e2"
    by (simp split: option.splits)
  have logged: "RuntimeError (js ''Failed to persist session reset after role ordering conflict ('' @
                  key @ js ''): '' @ err) \<in> set ?e2"
    if "storeWriteError env (effects s) = Some err" for err
    using that by (simp add: js_def)
  have keeps: "x \<in> set ?e3" if "x \<in> set ?e2" for x
    using that by (simp add: unlinkAll_keeps)
  have paths2: "unlinkedPaths ?e2 = unlinkedPaths (effects s)"
    by (simp add: unlinkedPaths_append split: option.splits)
  have paths: "unlinkedPaths ?e3 = unlinkedPaths (effects s) @ ?tried"
  proof (cases "sessionId prevEntry = []")
    case True
    then show ?thesis using paths2 by simp
  next
    case False
    then show ?thesis
      unfolding unlinkedPaths_unlinkAll paths2
      by (simp add: unlinkedPaths_unlinkAll paths2 transcriptCandidates_cases names Let_def)
  qed
  show ?thesis
  proof (intro conjI exI [of _ ?entry] allI impI)
    show "unlinkedPaths (effects s') = unlinkedPaths (effects s) @ ?tried"
      using paths by (simp add: s')
    show "UpdateSessionStore path key ?entry \<in> set (effects s')"
      using keeps [OF written] by (simp add: s')
    show "RuntimeError (js ''Failed to persist session reset after role ordering conflict ('' @
                  key @ js ''): '' @ err) \<in> set (effects s')"
      if "storeWriteError env (effects s) = Some err" for err
      using keeps [OF logged [OF that]] by (simp add: s')
  qed (simp_all add: ok s')
qed

theorem resetSession_role_conflict_witness:
  "sessionKey steerParams = Some (js ''agent:main:chat'') \<and> js ''agent:main:chat'' \<noteq> []
   \<and> storePath steerParams = Some (js ''/store.json'') \<and> js ''/store.json'' \<noteq> []
   \<and> activeSessionStore exampleState = Some [js ''agent:main:chat'' \<mapsto> exampleEntry]
   \<and> prevEntryOf [js ''agent:main:chat'' \<mapsto> exampleEntry] (js ''agent:main:chat'')
        (activeSessionEntry exampleState) = Some (Session_entry exampleEntry)
   \<and> sessionId exampleEntry = js ''uuid-1''
   \<and> fst (resetSessionAfterRoleOrderingConflict exampleRunnerEnv steerParams (js ''bad order'')
             1000 exampleState)
   \<and> map_option sessionId (activeSessionEntry (snd (resetSessionAfterRoleOrderingConflict
             exampleRunnerEnv steerParams (js ''bad order'') 1000 exampleState)))
       = Some (js ''uuid-2'')
   \<and> run_sessionId (snd (resetSessionAfterRoleOrderingConflict exampleRunnerEnv steerParams
             (js ''bad order'') 1000 exampleState)) = js ''uuid-2''
   \<and> unlinkedPaths (effects (snd (resetSessionAfterRoleOrderingConflict exampleRunnerEnv
             steerParams (js ''bad order'') 1000 exampleState)))
       = [js ''/old/uuid-1.jsonl'', js ''/sessions/uuid-1.jsonl'']
   \<and> fst (resetSessionAfterRoleOrderingConflict
             (exampleRunnerEnv\<lparr>storeWriteError := (\<lambda>es. Some (js ''EACCES''))\<rparr>)
             steerParams (js ''bad order'') 1000 exampleState)
   \<and> run_sessionId (snd (resetSessionAfterRoleOrderingConflict
             (exampleRunnerEnv\<lparr>storeWriteError := (\<lambda>es. Some (js ''EACCES''))\<rparr>)
             steerParams (js ''bad order'') 1000 exampleState)) = js ''uuid-2''
   \<and> RuntimeError (js ''Failed to persist session reset after role ordering conflict (agent:main:chat): EACCES'')
       \<in> set (effects (snd (resetSessionAfterRoleOrderingConflict
             (exampleRunnerEnv\<lparr>storeWriteError := (\<lambda>es. Some (js ''EACCES''))\<rparr>)
             steerParams (js ''bad order'') 1000 exampleState)))"
proof -
  let ?key = "js ''agent:main:chat''"
  let ?failing = "exampleRunnerEnv\<lparr>storeWriteError := (\<lambda>es. Some (js ''EACCES''))\<rparr>"
  let ?r = "resetSessionAfterRoleOrderingConflict exampleRunnerEnv steerParams (js ''bad order'')
             1000 exampleState"
  let ?f = "resetSessionAfterRoleOrderingConflict ?failing steerParams (js ''bad order'')
             1000 exampleState"
  have key: "sessionKey steerParams = Some ?key" "?key \<noteq> []"
    and path: "storePath steerParams = Some (js ''/store.json'')" "js ''/store.json'' \<noteq> []"
    by (simp_all add: steerParams_def js_def)
  have store: "activeSessionStore exampleState = Some [?key \<mapsto> exampleEntry]"
    by (simp add: exampleState_def)
  have prev: "prevEntryOf [?key \<mapsto> exampleEntry] ?key (activeSessionEntry exampleState)
                = Some (Session_entry exampleEntry)"
    by (simp add: prevEntryOf_def readStore_def)
  have old: "sessionId exampleEntry \<noteq> []" and oldid: "sessionId exampleEntry = js ''uuid-1''"
    by (simp_all add: exampleEntry_def js_def)
  have ids: "randomUUID exampleRunnerEnv (effects exampleState) = js ''uuid-2''"
      "randomUUID ?failing (effects exampleState) = js ''uuid-2''"
    by (simp_all add: exampleRunnerEnv_def js_def)
  have fails: "storeWriteError ?failing (effects exampleState) = Some (js ''EACCES'')"
    by simp
  have r: "?r = (fst ?r, snd ?r)" and f: "?f = (fst ?f, snd ?f)"
    by simp_all
  from resetSession_role_conflict [OF key store path prev r refl refl refl] old
  have "fst ?r" and "run_sessionId (snd ?r) = randomUUID exampleRunnerEnv (effects exampleState)"
    and "map_option sessionId (activeSessionEntry (snd ?r))
           = Some (randomUUID exampleRunnerEnv (effects exampleState))"
    and "unlinkedPaths (effects (snd ?r)) = unlinkedPaths (effects exampleState) @
      (if resolveSessionFilePath exampleRunnerEnv (sessionId exampleEntry) exampleEntry
            (resolveAgentIdFromSessionKey exampleRunnerEnv (Some ?key)) \<noteq> [] \<and>
          resolveSessionFilePath exampleRunnerEnv (sessionId exampleEntry) exampleEntry
            (resolveAgentIdFromSessionKey exampleRunnerEnv (Some ?key)) \<noteq>
          resolveSessionTranscriptPath exampleRunnerEnv (sessionId exampleEntry)
            (resolveAgentIdFromSessionKey exampleRunnerEnv (Some ?key)) None
       then [resolveSessionFilePath exampleRunnerEnv (sessionId exampleEntry) exampleEntry
              (resolveAgentIdFromSessionKey exampleRunnerEnv (Some ?key)),
             resolveSessionTranscriptPath exampleRunnerEnv (sessionId exampleEntry)
              (resolveAgentIdFromSessionKey exampleRunnerEnv (Some ?key)) None]
       else [resolveSessionTranscriptPath exampleRunnerEnv (sessionId exampleEntry)
              (resolveAgentIdFromSessionKey exampleRunnerEnv (Some ?key)) None])"
    by auto
  moreover
  from resetSession_role_conflict [OF key store path prev f refl refl refl] fails
  have "fst ?f" and "run_sessionId (snd ?f) = randomUUID ?failing (effects exampleState)"
    and "RuntimeError (js ''Failed to persist session reset after role ordering conflict ('' @
           ?key @ js ''): '' @ js ''EACCES'') \<in> set (effects (snd ?f))"
    by blast+
  moreover have "unlinkedPaths (effects exampleState) = []"
    by (simp add: exampleState_def)
  moreover have "js ''Failed to persist session reset after role ordering conflict ('' @
           ?key @ js ''): '' @ js ''EACCES''
       = js ''Failed to persist session reset after role ordering conflict (agent:main:chat): EACCES''"
    by (simp add: js_def)
  ultimately show ?thesis
    using key path store prev oldid ids
    by (simp add: exampleRunnerEnv_def exampleEntry_def js_def)
qed

text \<open>
  The claim as stated (for every such reset with a session key, a store and a store path
  available) fails in three ways. With an empty store and no active entry there is
  nothing to reset: the call returns false and changes nothing. When
  \<open>crypto.randomUUID()\<close> hands out the id the session already has, the call returns
  true and the session id is the old one. And on an entry whose session id is empty the
  call returns true without trying any unlink.
\<close>

theorem resetSession_role_conflict_counterexample:
  "truthy (sessionKey steerParams) \<and> truthy (storePath steerParams)
   \<and> resetSessionAfterRoleOrderingConflict exampleRunnerEnv steerParams (js ''bad order'') 1000
        (exampleState\<lparr>activeSessionEntry := None, activeSessionStore := Some Map.empty\<rparr>)
      = (False, exampleState\<lparr>activeSessionEntry := None, activeSessionStore := Some Map.empty\<rparr>)
   \<and> map_option sessionId (activeSessionEntry exampleState) = Some (js ''uuid-1'')
   \<and> fst (resetSessionAfterRoleOrderingConflict
            (exampleRunnerEnv\<lparr>randomUUID := (\<lambda>es. js ''uuid-1'')\<rparr>) steerParams
            (js ''bad order'') 1000 exampleState)
   \<and> map_option sessionId (activeSessionEntry (snd (resetSessionAfterRoleOrderingConflict
            (exampleRunnerEnv\<lparr>randomUUID := (\<lambda>es. js ''uuid-1'')\<rparr>) steerParams
            (js ''bad order'') 1000 exampleState)))
       = Some (js ''uuid-1'')
   \<and> fst (resetSessionAfterRoleOrderingConflict exampleRunnerEnv steerParams (js ''bad order'')
            1000
            (exampleState\<lparr>activeSessionEntry := Some (exampleEntry\<lparr>sessionId := []\<rparr>),
               activeSessionStore :=
                 Some [js ''agent:main:chat'' \<mapsto> exampleEntry\<lparr>sessionId := []\<rparr>]\<rparr>))
   \<and> unlinkedPaths (effects (snd (resetSessionAfterRoleOrderingConflict exampleRunnerEnv
            steerParams (js ''bad order'') 1000
            (exampleState\<lparr>activeSessionEntry := Some (exampleEntry\<lparr>sessionId := []\<rparr>),
               activeSessionStore :=
                 Some [js ''agent:main:chat'' \<mapsto> exampleEntry\<lparr>sessionId := []\<rparr>]\<rparr>))))
       = []"
  by (simp add: resetSessionAfterRoleOrderingConflict_def resetSession_def prevEntryOf_def
      readStore_def objectPrototypeMember_def nextEntryFrom_def steerParams_def exampleState_def
      exampleEntry_def exampleRunnerEnv_def truthy_def Let_def js_def)

lemma enqueued_append: "enqueued (xs @ ys) \<longleftrightarrow> enqueued xs \<or> enqueued ys"
  by (auto simp: enqueued_def)

lemma touchSession_enqueued: "enqueued (effects (snd (touchSession env p now s))) = enqueued (effects s)"
  by (auto simp: touchSession_def Let_def enqueued_def split: option.splits)

lemma touchSession_available:
  assumes "activeSessionEntry s = Some entry" "activeSessionStore s = Some store"
    "sessionKey p = Some key" "key \<noteq> []"
  shows "activeSessionEntry (snd (touchSession env p now s)) = Some (entry\<lparr>updatedAt := now\<rparr>)"
    and "activeSessionStore (snd (touchSession env p now s))
           = Some (store(key \<mapsto> entry\<lparr>updatedAt := now\<rparr>))"
    and "truthy (storePath p) \<longrightarrow>
           UpdateSessionStoreEntry (the (storePath p)) key now
             \<in> set (effects (snd (touchSession env p now s)))"
    and "fst (touchSession env p now s) \<longleftrightarrow>
           \<not> truthy (storePath p) \<or> storeWriteError env (effects s) = None"
  using assms by (auto simp: touchSession_def Let_def truthy_def split: option.splits)

lemma touchSession_unavailable:
  assumes "activeSessionEntry s = None \<or> activeSessionStore s = None \<or> \<not> truthy (sessionKey p)"
  shows "touchSession env p now s = (True, s)"
  using assms by (auto simp: touchSession_def truthy_def split: option.splits)

lemma steered_run:
  assumes "shouldSteer p" "isStreaming p"
    "queueEmbeddedPiMessage env (run_sessionId s) (prompt p)" "\<not> shouldFollowup p"
  shows "runReplyAgent_before_turn env p now s =
    (let s0 = s\<lparr>effects := effects s @ [QueueEmbeddedPiMessage (run_sessionId s) (prompt p)]\<rparr>;
         t = touchSession env p now s0
     in if fst t then (Returned_undefined, (snd t)\<lparr>effects := effects (snd t) @ [TypingCleanup]\<rparr>)
        else (Rejected_by_store_write, snd t))"
  using assms
  by (cases "touchSession env p now
        (s\<lparr>effects := effects s @ [QueueEmbeddedPiMessage (run_sessionId s) (prompt p)]\<rparr>)")
     (auto simp: runReplyAgent_before_turn_def Let_def)

lemma steer_accepted_parts:
  assumes "shouldSteer p" "isStreaming p"
    "queueEmbeddedPiMessage env (run_sessionId s) (prompt p)" "\<not> shouldFollowup p"
    and result: "runReplyAgent_before_turn env p now s = (outcome, s')"
  shows "enqueued (effects s') = enqueued (effects s)"
    and "activeSessionEntry s = Some entry \<and> activeSessionStore s = Some store \<and>
         sessionKey p = Some key \<and> key \<noteq> [] \<longrightarrow>
           activeSessionEntry s' = Some (entry\<lparr>updatedAt := now\<rparr>) \<and>
           activeSessionStore s' = Some (store(key \<mapsto> entry\<lparr>updatedAt := now\<rparr>)) \<and>
           (truthy (storePath p) \<longrightarrow>
              UpdateSessionStoreEntry (the (storePath p)) key now \<in> set (effects s'))"
    and "activeSessionEntry s = None \<or> activeSessionStore s = None \<or> \<not> truthy (sessionKey p) \<longrightarrow>
           activeSessionEntry s' = activeSessionEntry s \<and>
           activeSessionStore s' = activeSessionStore s \<and> outcome = Returned_undefined"
    and "\<not> truthy (storePath p) \<or>
         storeWriteError env (effects s @ [QueueEmbeddedPiMessage (run_sessionId s) (prompt p)]) = None
         \<longrightarrow> outcome = Returned_undefined"
proof -
  let ?s0 = "s\<lparr>effects := effects s @ [QueueEmbeddedPiMessage (run_sessionId s) (prompt p)]\<rparr>"
  let ?t = "touchSession env p now ?s0"
  from steered_run [OF assms(1-4), where now=now] result
  have run: "(outcome, s') =
     (if fst ?t then (Returned_undefined, (snd ?t)\<lparr>effects := effects (snd ?t) @ [TypingCleanup]\<rparr>)
      else (Rejected_by_store_write, snd ?t))"
    by (simp add: Let_def)
  have "enqueued (effects (snd ?t)) = enqueued (effects s)"
    by (simp add: touchSession_enqueued enqueued_append) (simp add: enqueued_def)
  with run show "enqueued (effects s') = enqueued (effects s)"
    by (auto simp: enqueued_append split: if_splits) (simp_all add: enqueued_def)
  show "activeSessionEntry s = Some entry \<and> activeSessionStore s = Some store \<and>
         sessionKey p = Some key \<and> key \<noteq> [] \<longrightarrow>
           activeSessionEntry s' = Some (entry\<lparr>updatedAt := now\<rparr>) \<and>
           activeSessionStore s' = Some (store(key \<mapsto> entry\<lparr>updatedAt := now\<rparr>)) \<and>
           (truthy (storePath p) \<longrightarrow>
              UpdateSessionStoreEntry (the (storePath p)) key now \<in> set (effects s'))"
  proof (intro impI, elim conjE)
    assume a: "activeSessionEntry s = Some entry" "activeSessionStore s = Some store"
      "sessionKey p = Some key" "key \<noteq> []"
    then have a0: "activeSessionEntry ?s0 = Some entry" "activeSessionStore ?s0 = Some store"
      by simp_all
    from touchSession_available [OF a0 a(3,4), where env=env and now=now] run
    show "activeSessionEntry s' = Some (entry\<lparr>updatedAt := now\<rparr>) \<and>
           activeSessionStore s' = Some (store(key \<mapsto> entry\<lparr>updatedAt := now\<rparr>)) \<and>
           (truthy (storePath p) \<longrightarrow>
              UpdateSessionStoreEntry (the (storePath p)) key now \<in> set (effects s'))"
      by (auto split: if_splits)
  qed
  show "activeSessionEntry s = None \<or> activeSessionStore s = None \<or> \<not> truthy (sessionKey p) \<longrightarrow>
           activeSessionEntry s' = activeSessionEntry s \<and>
           activeSessionStore s' = activeSessionStore s \<and> outcome = Returned_undefined"
  proof
    assume "activeSessionEntry s = None \<or> activeSessionStore s = None \<or> \<not> truthy (sessionKey p)"
    then have "activeSessionEntry ?s0 = None \<or> activeSessionStore ?s0 = None \<or> \<not> truthy (sessionKey p)"
      by simp
    from touchSession_unavailable [OF this, where env=env and now=now] run
    show "activeSessionEntry s' = activeSessionEntry s \<and>
           activeSessionStore s' = activeSessionStore s \<and> outcome = Returned_undefined"
      by simp
  qed
  show "\<not> truthy (storePath p) \<or>
         storeWriteError env (effects s @ [QueueEmbeddedPiMessage (run_sessionId s) (prompt p)]) = None
         \<longrightarrow> outcome = Returned_undefined"
  proof
    assume w: "\<not> truthy (storePath p) \<or>
         storeWriteError env (effects s @ [QueueEmbeddedPiMessage (run_sessionId s) (prompt p)]) = None"
    have "fst ?t"
    proof (cases "activeSessionEntry s = None \<or> activeSessionStore s = None \<or> \<not> truthy (sessionKey p)")
      case True
      then have "activeSessionEntry ?s0 = None \<or> activeSessionStore ?s0 = None \<or> \<not> truthy (sessionKey p)"
        by simp
      from touchSession_unavailable [OF this, where env=env and now=now] show ?thesis by simp
    next
      case False
      then obtain entry store key where a: "activeSessionEntry ?s0 = Some entry"
        "activeSessionStore ?s0 = Some store" "sessionKey p = Some key" "key \<noteq> []"
        by (auto simp: truthy_def split: option.splits)
      from touchSession_available(4) [OF a, where env=env and now=now] w show ?thesis
        by simp
    qed
    with run show "outcome = Returned_undefined"
      by simp
  qed
qed


text \<open>
  Claim C1, as the code has it. When a steer is attempted (\<open>shouldSteer\<close> and
  \<open>isStreaming\<close>), \<open>queueEmbeddedPiMessage\<close> returns true and no followup is
  requested: \<open>enqueueFollowupRun\<close> is not called; with a session entry, a session
  store and a non-empty session key the entry's \<open>updatedAt\<close> becomes the current time
  in the entry and in the store (and is handed to the store write when there is a store
  path); without one of the three the session record is left as it is; and the function
  returns \<open>undefined\<close> whenever no store write is made or the write resolves.
\<close>

theorem steer_accepted:
  assumes "shouldSteer p" "isStreaming p"
    "queueEmbeddedPiMessage env (run_sessionId s) (prompt p)" "\<not> shouldFollowup p"
    and "runReplyAgent_before_turn env p now s = (outcome, s')"
  shows "enqueued (effects s') = enqueued (effects s)
    \<and> (activeSessionEntry s = Some entry \<and> activeSessionStore s = Some store \<and>
         sessionKey p = Some key \<and> key \<noteq> [] \<longrightarrow>
           activeSessionEntry s' = Some (entry\<lparr>updatedAt := now\<rparr>) \<and>
           activeSessionStore s' = Some (store(key \<mapsto> entry\<lparr>updatedAt := now\<rparr>)) \<and>
           (truthy (storePath p) \<longrightarrow>
              UpdateSessionStoreEntry (the (storePath p)) key now \<in> set (effects s')))
    \<and> (activeSessionEntry s = None \<or> activeSessionStore s = None \<or> \<not> truthy (sessionKey p) \<longrightarrow>
           activeSessionEntry s' = activeSessionEntry s \<and>
           activeSessionStore s' = activeSessionStore s \<and> outcome = Returned_undefined)
    \<and> (\<not> truthy (storePath p) \<or>
         storeWriteError env (effects s @ [QueueEmbeddedPiMessage (run_sessionId s) (prompt p)]) = None
         \<longrightarrow> outcome = Returned_undefined)"
  using steer_accepted_parts [OF assms] by blast

theorem steer_accepted_witness:
  "shouldSteer steerParams \<and> isStreaming steerParams
   \<and> queueEmbeddedPiMessage exampleRunnerEnv (run_sessionId exampleState) (prompt steerParams)
   \<and> \<not> shouldFollowup steerParams
   \<and> \<not> enqueued (effects (snd (runReplyAgent_before_turn exampleRunnerEnv steerParams 1000 exampleState)))
   \<and> activeSessionEntry (snd (runReplyAgent_before_turn exampleRunnerEnv steerParams 1000 exampleState))
       = Some (exampleEntry\<lparr>updatedAt := 1000\<rparr>)
   \<and> activeSessionStore (snd (runReplyAgent_before_turn exampleRunnerEnv steerParams 1000 exampleState))
       = Some [js ''agent:main:chat'' \<mapsto> exampleEntry\<lparr>updatedAt := 1000\<rparr>]
   \<and> UpdateSessionStoreEntry (js ''/store.json'') (js ''agent:main:chat'') 1000
       \<in> set (effects (snd (runReplyAgent_before_turn exampleRunnerEnv steerParams 1000 exampleState)))
   \<and> fst (runReplyAgent_before_turn exampleRunnerEnv steerParams 1000 exampleState)
       = Returned_undefined
   \<and> activeSessionEntry (snd (runReplyAgent_before_turn exampleRunnerEnv steerParams 1000
          (exampleState\<lparr>activeSessionEntry := None\<rparr>))) = None
   \<and> fst (runReplyAgent_before_turn exampleRunnerEnv steerParams 1000
          (exampleState\<lparr>activeSessionEntry := None\<rparr>)) = Returned_undefined"
proof -
  let ?r = "runReplyAgent_before_turn exampleRunnerEnv steerParams 1000 exampleState"
  let ?n = "runReplyAgent_before_turn exampleRunnerEnv steerParams 1000
              (exampleState\<lparr>activeSessionEntry := None\<rparr>)"
  have pre: "shouldSteer steerParams" "isStreaming steerParams"
    "queueEmbeddedPiMessage exampleRunnerEnv (run_sessionId exampleState) (prompt steerParams)"
    "\<not> shouldFollowup steerParams"
    by (simp_all add: steerParams_def exampleRunnerEnv_def)
  have pre': "queueEmbeddedPiMessage exampleRunnerEnv
      (run_sessionId (exampleState\<lparr>activeSessionEntry := None\<rparr>)) (prompt steerParams)"
    by (simp add: exampleRunnerEnv_def)
  have r: "?r = (fst ?r, snd ?r)" and n: "?n = (fst ?n, snd ?n)"
    by simp_all
  have given: "activeSessionEntry exampleState = Some exampleEntry"
    "activeSessionStore exampleState = Some [js ''agent:main:chat'' \<mapsto> exampleEntry]"
    "sessionKey steerParams = Some (js ''agent:main:chat'')" "js ''agent:main:chat'' \<noteq> []"
    "storePath steerParams = Some (js ''/store.json'')" "js ''/store.json'' \<noteq> []"
    "storeWriteError exampleRunnerEnv
       (effects exampleState @
        [QueueEmbeddedPiMessage (run_sessionId exampleState) (prompt steerParams)]) = None"
    "\<not> enqueued (effects exampleState)"
    by (simp_all add: exampleState_def steerParams_def exampleRunnerEnv_def js_def enqueued_def)
  from steer_accepted [OF pre r, of exampleEntry "[js ''agent:main:chat'' \<mapsto> exampleEntry]"
      "js ''agent:main:chat''"]
    steer_accepted [OF pre(1,2) pre' pre(4) n, of exampleEntry Map.empty "js ''agent:main:chat''"]
    given pre
  show ?thesis
    by (simp add: truthy_def)
qed

text \<open>
  The claim as stated (every accepted steer bumps \<open>updatedAt\<close>) fails when the
  invocation has a session entry but no session store: the function returns
  \<open>undefined\<close> and the entry keeps its old \<open>updatedAt\<close>.
\<close>

theorem steer_without_store_counterexample:
  "shouldSteer steerParams \<and> isStreaming steerParams
   \<and> queueEmbeddedPiMessage exampleRunnerEnv (run_sessionId exampleState) (prompt steerParams)
   \<and> \<not> shouldFollowup steerParams
   \<and> fst (runReplyAgent_before_turn exampleRunnerEnv steerParams 1000
            (exampleState\<lparr>activeSessionStore := None\<rparr>)) = Returned_undefined
   \<and> map_option updatedAt
        (activeSessionEntry (snd (runReplyAgent_before_turn exampleRunnerEnv steerParams 1000
            (exampleState\<lparr>activeSessionStore := None\<rparr>)))) = Some 0"
  by (simp add: runReplyAgent_before_turn_def touchSession_def steerParams_def
      exampleRunnerEnv_def exampleState_def exampleEntry_def Let_def)

text \<open>
  Claim C7. With a live status controller and a last reply payload that has text, the
  last payload of the returned list should carry the text marked by \<open>complete\<close>,
  also when a hint line is prepended. At the input below (one reply \<open>ok\<close>, verbose on,
  a new session, completion five seconds after the start) \<open>complete\<close> returns the marked
  text, but the returned list is the hint followed by the unmarked reply: the marked
  text was written into the array \<open>replyPayloads\<close>, which the spread had already
  copied.
\<close>

theorem final_payloads_lose_marked_text:
  "fst (completeStatusUpdate 5000 liveContext (Some (js ''ok''))) = Some (js ''ok _(0:05)_'')
   \<and> payloads_of (fst (runReplyAgent_final_payloads noUsageLine verboseNewSession 5000 liveContext
                         [[textPayload (js ''ok'')]]))
       = [textPayload ([0xD83E, 0xDDED] @ js '' New session: s1''), textPayload (js ''ok'')]
   \<and> ptext (last (payloads_of (fst (runReplyAgent_final_payloads noUsageLine verboseNewSession 5000
                         liveContext [[textPayload (js ''ok'')]]))))
       = Some (js ''ok'')"
  by code_simp

text \<open>
  The same holds for every turn whose list gets the new-session hint and no usage line:
  whatever the controller returns, the returned list is the hint followed by the replies
  as they were.
\<close>

lemma final_payloads_hint_unmarked:
  assumes "verboseEnabled inp" "isNewSession inp" "\<not> autoCompactionCompleted inp"
    "\<not> truthy (responseUsageLine inp)" "replyPayloads inp < length h"
  shows "payloads_of (fst (runReplyAgent_final_payloads appendUsageLine inp now ctx h)) =
           textPayload ([0xD83E, 0xDDED] @ js '' New session: '' @ finalSessionId inp)
           # (h ! replyPayloads inp)"
proof -
  have other: "(xs[replyPayloads inp := ys]) ! length h = xs ! length h" for xs ys
    using assms(5) by simp
  show ?thesis
    using assms other
    by (cases "h ! replyPayloads inp")
       (auto simp: runReplyAgent_final_payloads_def new_array_def Let_def nth_append
          split: prod.splits if_splits)
qed

text \<open>Without the hint the returned payload is the one written to, and carries the marked text.\<close>

lemma final_payloads_same_array:
  "fst (runReplyAgent_final_payloads noUsageLine (verboseNewSession\<lparr>verboseEnabled := False\<rparr>) 5000 liveContext
                         [[textPayload (js ''ok'')]])
     = Single (textPayload (js ''ok _(0:05)_''))"
  by code_simp

section \<open>Delivery: facts and claims\<close>

lemma outboundTargets_append [simp]:
  "outboundTargets (xs @ ys) = outboundTargets xs @ outboundTargets ys"
  by (simp add: outboundTargets_def List.map_filter_def)

lemma outboundTargets_Nil [simp]: "outboundTargets [] = []"
  by (simp add: outboundTargets_def List.map_filter_def)

lemma outboundTargets_Cons:
  "outboundTargets (e # es) =
     (case outboundTarget e of Some t \<Rightarrow> t # outboundTargets es | None \<Rightarrow> outboundTargets es)"
  by (simp add: outboundTargets_def List.map_filter_def split: option.splits)

lemma logged_fields [simp]:
  "hasReplied (logged c r s) = hasReplied s"
  "sentMessages (logged c r s) = sentMessages s"
  "history (logged c r s) = history s @ [(c, r)]"
  by (simp_all add: logged_def)

lemma sendTelegramText_effect:
  assumes "sendTelegramText env t opts s = Completed (m, s')"
  shows "hasReplied s' = hasReplied s"
    and "sentMessages s' = sentMessages s"
    and "outboundTargets (history s') = outboundTargets (history s) @
           [if truthyNum (replyToMessageId opts) then replyToMessageId opts else None]"
  using assms
  by (auto simp: sendTelegramText_def Let_def outboundTargets_Cons
      split: sum.splits if_splits)

lemma replyTargetNow_falsy:
  "\<not> truthyNum (replyTargetNow env r s) \<Longrightarrow> replyTargetNow env r s = None"
  by (auto simp: replyTargetNow_def)

lemma markReplied_fields [simp]:
  "sentMessages (markReplied r s) = sentMessages s"
  "history (markReplied r s) = history s"
  "hasReplied (markReplied r s) = (hasReplied s \<or> truthyNum r)"
  by (auto simp: markReplied_def)

lemma chunkTargets_0 [simp]: "chunkTargets m r b 0 = []"
  by (simp add: chunkTargets_def)

lemma chunkTargets_Suc:
  "chunkTargets m r b (Suc n) =
     (if truthyNum r \<and> (m = Reply_all \<or> \<not> b) then r else None) #
     chunkTargets m r (b \<or> truthyNum r) n"
  by (cases n) (auto simp: chunkTargets_def)

lemma sendTextChunks_effect:
  assumes "sendTextChunks env r chunks sent s = Completed (sent', s')"
  shows "sentMessages s' = sentMessages s
       \<and> hasReplied s' = (hasReplied s \<or> (truthyNum r \<and> chunks \<noteq> []))
       \<and> outboundTargets (history s') =
           outboundTargets (history s) @
           chunkTargets (replyToMode env) r (hasReplied s) (length chunks)"
  using assms
proof (induction chunks arbitrary: sent s)
  case Nil
  then show ?case by simp
next
  case (Cons chunk rest)
  let ?opts = "\<lparr> replyToMessageId = replyTargetNow env r s,
               opts_messageThreadId = messageThreadId env,
               textMode_html = True,
               plainText = Some (chunk_text chunk),
               opts_linkPreview = linkPreview env \<rparr>"
  from Cons.prems obtain m s1 where
    sent1: "sendTelegramText env (chunk_html chunk) ?opts s = Completed (m, s1)"
    and rest: "sendTextChunks env r rest (if m \<noteq> 0 then Some m else sent) (markReplied r s1)
                 = Completed (sent', s')"
    by (auto split: attempt.splits)
  from sendTelegramText_effect [OF sent1]
  have one: "hasReplied s1 = hasReplied s" "sentMessages s1 = sentMessages s"
    "outboundTargets (history s1) = outboundTargets (history s) @ [replyTargetNow env r s]"
    by (auto dest: replyTargetNow_falsy)
  from Cons.IH [OF rest] one
  show ?case
    by (auto simp: chunkTargets_Suc replyTargetNow_def)
qed


lemma getLastSentMessage_recorded:
  "getLastSentMessage (recordSentMessage key m st now cache) key
     = Some \<lparr> messageId = m, timestamp = now, isStatus = st \<rparr>"
  by (simp add: getLastSentMessage_def recordSentMessage_def Let_def cleanupExpired_def)

lemma recordSent_fields [simp]:
  "hasReplied (recordSent env reply sent s) = hasReplied s"
  "history (recordSent env reply sent s) = history s"
  by (simp_all add: recordSent_def split: option.splits)

lemma recordSent_noStatus:
  assumes "\<not> isStatusMessage reply" "noStatusPending env (sentMessages s)"
  shows "noStatusPending env (sentMessages (recordSent env reply sent s))"
  using assms
  by (cases sent) (simp_all add: recordSent_def noStatusPending_def getLastSentMessage_recorded)

lemma noStatusPending_no_edit: "noStatusPending env (sentMessages s) \<Longrightarrow> \<not> shouldEditLast env s"
  by (auto simp: noStatusPending_def shouldEditLast_def split: option.splits)

lemma plainTextReply_mediaList: "plainTextReply reply \<Longrightarrow> mediaList reply = []"
  by (auto simp: plainTextReply_def hasMedia_def mediaList_def split: option.splits)

text \<open>
  A plain text reply delivered while no status message is pending goes out in chunks
  through \<open>sendTelegramText\<close>, and leaves no status message pending.
\<close>

lemma deliverReply_plain:
  assumes plain: "plainTextReply reply"
    and quiet: "noStatusPending env (sentMessages s)"
    and finished: "deliverReply env reply s = Completed s'"
  shows "noStatusPending env (sentMessages s')
       \<and> hasReplied s' =
           (hasReplied s \<or>
            (replyToMode env \<noteq> Reply_off \<and> truthyNum (resolveTelegramReplyId env (replyToId reply)) \<and>
             chunkCount env reply \<noteq> 0))
       \<and> outboundTargets (history s') =
           outboundTargets (history s) @
           chunkTargets (replyToMode env)
             (if replyToMode env = Reply_off then None else resolveTelegramReplyId env (replyToId reply))
             (hasReplied s) (chunkCount env reply)"
proof -
  let ?r = "if replyToMode env = Reply_off then None else resolveTelegramReplyId env (replyToId reply)"
  let ?chunks = "chunkText env (case ptext reply of Some t \<Rightarrow> t | None \<Rightarrow> [])"
  from plain have hastext: "truthy (ptext reply)" and nostatus: "\<not> isStatusMessage reply"
    by (simp_all add: plainTextReply_def)
  from plain quiet have "deliverReply env reply s =
      (case sendTextChunks env ?r ?chunks None s of
         Threw s' \<Rightarrow> Threw s'
       | Completed (sentMessageId, s1) \<Rightarrow> Completed (recordSent env reply sentMessageId s1))"
    by (simp add: deliverReply_def deliverTextReply_def plainTextReply_mediaList
        noStatusPending_no_edit Let_def plainTextReply_def)
  with finished obtain sent s1 where
    chunks: "sendTextChunks env ?r ?chunks None s = Completed (sent, s1)"
    and s': "s' = recordSent env reply sent s1"
    by (auto split: attempt.splits)
  from sendTextChunks_effect [OF chunks]
  have eff: "sentMessages s1 = sentMessages s"
    "hasReplied s1 = (hasReplied s \<or> (truthyNum ?r \<and> ?chunks \<noteq> []))"
    "outboundTargets (history s1) =
       outboundTargets (history s) @ chunkTargets (replyToMode env) ?r (hasReplied s) (length ?chunks)"
    by simp_all
  from quiet eff(1) have "noStatusPending env (sentMessages s1)"
    by simp
  from recordSent_noStatus [OF nostatus this] eff(2,3) show ?thesis
    by (auto simp: s' chunkCount_def truthyNum_def)
qed

lemma chunkTargets_off: "chunkTargets m None b n = replicate n None"
  by (cases n) (simp_all add: chunkTargets_def truthyNum_def)

lemma chunkTargets_all: "truthyNum r \<Longrightarrow> chunkTargets Reply_all r b n = replicate n r"
  by (cases n) (simp_all add: chunkTargets_def)

lemma chunkTargets_first_replied: "chunkTargets Reply_first r True n = replicate n None"
  by (cases n) (simp_all add: chunkTargets_def)

lemma chunkTargets_first_fresh:
  "truthyNum r \<Longrightarrow> 0 < n \<Longrightarrow> chunkTargets Reply_first r False n = r # replicate (n - 1) None"
  by (cases n) (simp_all add: chunkTargets_def)

lemma deliverLoop_off:
  assumes "replyToMode env = Reply_off" "\<forall>p \<in> set replies. plainTextReply p"
    "noStatusPending env (sentMessages s)" "deliverLoop env replies s = Completed s'"
  shows "outboundTargets (history s') =
           outboundTargets (history s) @ replicate (sum_list (map (chunkCount env) replies)) None"
  using assms
proof (induction replies arbitrary: s)
  case Nil
  then show ?case by simp
next
  case (Cons p ps)
  from Cons.prems(4) obtain s1 where one: "deliverReply env p s = Completed s1"
    and rest: "deliverLoop env ps s1 = Completed s'"
    by (auto split: attempt.splits)
  from Cons.prems(2) have plain: "plainTextReply p" and plains: "\<forall>p \<in> set ps. plainTextReply p"
    by simp_all
  from deliverReply_plain [OF plain Cons.prems(3) one] Cons.prems(1)
  have quiet: "noStatusPending env (sentMessages s1)"
    and t: "outboundTargets (history s1) =
              outboundTargets (history s) @ replicate (chunkCount env p) None"
    by (simp_all add: chunkTargets_off)
  from Cons.IH [OF Cons.prems(1) plains quiet rest] t show ?case
    by (simp add: replicate_add)
qed

lemma deliverLoop_all:
  assumes "replyToMode env = Reply_all" "\<forall>p \<in> set replies. plainTextReply p"
    "\<forall>p \<in> set replies. truthyNum (resolveTelegramReplyId env (replyToId p))"
    "noStatusPending env (sentMessages s)" "deliverLoop env replies s = Completed s'"
  shows "outboundTargets (history s') =
           outboundTargets (history s) @
           concat (map (\<lambda>p. replicate (chunkCount env p) (resolveTelegramReplyId env (replyToId p)))
                     replies)"
  using assms
proof (induction replies arbitrary: s)
  case Nil
  then show ?case by simp
next
  case (Cons p ps)
  from Cons.prems(5) obtain s1 where one: "deliverReply env p s = Completed s1"
    and rest: "deliverLoop env ps s1 = Completed s'"
    by (auto split: attempt.splits)
  from Cons.prems(2) have plain: "plainTextReply p" and plains: "\<forall>p \<in> set ps. plainTextReply p"
    by simp_all
  from Cons.prems(3) have id: "truthyNum (resolveTelegramReplyId env (replyToId p))"
    and ids: "\<forall>p \<in> set ps. truthyNum (resolveTelegramReplyId env (replyToId p))"
    by simp_all
  from deliverReply_plain [OF plain Cons.prems(4) one] Cons.prems(1) id
  have quiet: "noStatusPending env (sentMessages s1)"
    and t: "outboundTargets (history s1) =
              outboundTargets (history s) @
              replicate (chunkCount env p) (resolveTelegramReplyId env (replyToId p))"
    by (simp_all add: chunkTargets_all)
  from Cons.IH [OF Cons.prems(1) plains ids quiet rest] t show ?case
    by simp
qed

lemma deliverLoop_first_replied:
  assumes "replyToMode env = Reply_first" "\<forall>p \<in> set replies. plainTextReply p"
    "noStatusPending env (sentMessages s)" "hasReplied s"
    "deliverLoop env replies s = Completed s'"
  shows "outboundTargets (history s') =
           outboundTargets (history s) @ replicate (sum_list (map (chunkCount env) replies)) None"
  using assms
proof (induction replies arbitrary: s)
  case Nil
  then show ?case by simp
next
  case (Cons p ps)
  from Cons.prems(5) obtain s1 where one: "deliverReply env p s = Completed s1"
    and rest: "deliverLoop env ps s1 = Completed s'"
    by (auto split: attempt.splits)
  from Cons.prems(2) have plain: "plainTextReply p" and plains: "\<forall>p \<in> set ps. plainTextReply p"
    by simp_all
  from deliverReply_plain [OF plain Cons.prems(3) one] Cons.prems(1,4)
  have quiet: "noStatusPending env (sentMessages s1)" and replied: "hasReplied s1"
    and t: "outboundTargets (history s1) =
              outboundTargets (history s) @ replicate (chunkCount env p) None"
    by (simp_all add: chunkTargets_first_replied)
  from Cons.IH [OF Cons.prems(1) plains quiet replied rest] t show ?case
    by (simp add: replicate_add)
qed

lemma deliverLoop_first_fresh:
  assumes mode: "replyToMode env = Reply_first"
    and plain: "plainTextReply p" and plains: "\<forall>q \<in> set ps. plainTextReply q"
    and id: "truthyNum (resolveTelegramReplyId env (replyToId p))"
    and some: "0 < chunkCount env p"
    and quiet: "noStatusPending env (sentMessages s)" and fresh: "\<not> hasReplied s"
    and finished: "deliverLoop env (p # ps) s = Completed s'"
  shows "outboundTargets (history s') =
           outboundTargets (history s) @
           resolveTelegramReplyId env (replyToId p) #
           replicate (sum_list (map (chunkCount env) (p # ps)) - 1) None"
proof -
  from finished obtain s1 where one: "deliverReply env p s = Completed s1"
    and rest: "deliverLoop env ps s1 = Completed s'"
    by (auto split: attempt.splits)
  from deliverReply_plain [OF plain quiet one] mode id some fresh
  have quiet1: "noStatusPending env (sentMessages s1)" and replied: "hasReplied s1"
    and t: "outboundTargets (history s1) =
              outboundTargets (history s) @
              resolveTelegramReplyId env (replyToId p) # replicate (chunkCount env p - 1) None"
    by (simp_all add: chunkTargets_first_fresh)
  from deliverLoop_first_replied [OF mode plains quiet1 replied rest] t some show ?thesis
    by (simp add: replicate_add [symmetric] del: replicate_add)
qed

lemma completed_finalState: "completed r \<Longrightarrow> r = Completed (finalState r)"
  by (cases r) simp_all

text \<open>
  Claim C8, as the code has it. For every delivery of replies that go out as plain
  text (text, no media, no status message) while the last message recorded for the
  chat is not a status message, and that runs to its end: in mode \<open>off\<close> no outbound
  message carries a reply-to target; in mode \<open>all\<close>, with every reply's reply-to id
  resolving to a non-zero number, every outbound message carries the target of its
  reply; in mode \<open>first\<close>, with the first reply's id resolving to a non-zero number
  and its text giving at least one chunk, exactly the first outbound message carries
  the target and every later one carries none. With three replies of one chunk each
  the targets are the first reply's id followed by two times none.
\<close>

theorem reply_threading_plain_text:
  assumes "\<forall>p \<in> set replies. plainTextReply p"
    and "noStatusPending env cache"
    and "deliverReplies env replies cache h = Completed s'"
  shows
    "(replyToMode env = Reply_off \<longrightarrow>
        outboundTargets (history s') =
          outboundTargets h @ replicate (sum_list (map (chunkCount env) replies)) None)
     \<and> (replyToMode env = Reply_all \<and>
        (\<forall>p \<in> set replies. truthyNum (resolveTelegramReplyId env (replyToId p))) \<longrightarrow>
        outboundTargets (history s') =
          outboundTargets h @
          concat (map (\<lambda>p. replicate (chunkCount env p) (resolveTelegramReplyId env (replyToId p)))
                    replies))
     \<and> (replyToMode env = Reply_first \<and> replies \<noteq> [] \<and>
        truthyNum (resolveTelegramReplyId env (replyToId (hd replies))) \<and>
        0 < chunkCount env (hd replies) \<longrightarrow>
        outboundTargets (history s') =
          outboundTargets h @
          resolveTelegramReplyId env (replyToId (hd replies)) #
          replicate (sum_list (map (chunkCount env) replies) - 1) None)"
proof -
  let ?s = "\<lparr> hasReplied = False, sentMessages = cache, history = h \<rparr>"
  from assms(3) have loop: "deliverLoop env replies ?s = Completed s'"
    by (simp add: deliverReplies_def)
  from assms(2) have quiet: "noStatusPending env (sentMessages ?s)"
    by simp
  show ?thesis
  proof (intro conjI impI)
    assume "replyToMode env = Reply_off"
    from deliverLoop_off [OF this assms(1) quiet loop]
    show "outboundTargets (history s') =
          outboundTargets h @ replicate (sum_list (map (chunkCount env) replies)) None"
      by simp
  next
    assume "replyToMode env = Reply_all \<and>
        (\<forall>p \<in> set replies. truthyNum (resolveTelegramReplyId env (replyToId p)))"
    then have m: "replyToMode env = Reply_all"
      and ids: "\<forall>p \<in> set replies. truthyNum (resolveTelegramReplyId env (replyToId p))"
      by simp_all
    from deliverLoop_all [OF m assms(1) ids quiet loop]
    show "outboundTargets (history s') =
          outboundTargets h @
          concat (map (\<lambda>p. replicate (chunkCount env p) (resolveTelegramReplyId env (replyToId p)))
                    replies)"
      by simp
  next
    assume a: "replyToMode env = Reply_first \<and> replies \<noteq> [] \<and>
        truthyNum (resolveTelegramReplyId env (replyToId (hd replies))) \<and>
        0 < chunkCount env (hd replies)"
    then obtain p ps where ps: "replies = p # ps"
      by (cases replies) auto
    with a assms(1) have m: "replyToMode env = Reply_first" and plain: "plainTextReply p"
      and plains: "\<forall>q \<in> set ps. plainTextReply q"
      and id: "truthyNum (resolveTelegramReplyId env (replyToId p))"
      and some: "0 < chunkCount env p"
      by simp_all
    from loop ps have loop': "deliverLoop env (p # ps) ?s = Completed s'"
      by simp
    have fresh: "\<not> hasReplied ?s"
      by simp
    from deliverLoop_first_fresh [OF m plain plains id some quiet fresh loop'] ps
    show "outboundTargets (history s') =
          outboundTargets h @
          resolveTelegramReplyId env (replyToId (hd replies)) #
          replicate (sum_list (map (chunkCount env) replies) - 1) None"
      by simp
  qed
qed


theorem reply_threading_plain_text_witness:
  "list_all plainTextReply threeReplies
   \<and> completed (deliverReplies (exampleDeliveryEnv Reply_first) threeReplies Map.empty [])
   \<and> outboundTargets (history (finalState
         (deliverReplies (exampleDeliveryEnv Reply_first) threeReplies Map.empty [])))
       = [Some 5, None, None]
   \<and> outboundTargets (history (finalState
         (deliverReplies (exampleDeliveryEnv Reply_off) threeReplies Map.empty [])))
       = [None, None, None]
   \<and> outboundTargets (history (finalState
         (deliverReplies (exampleDeliveryEnv Reply_all) threeReplies Map.empty [])))
       = [Some 5, Some 5, Some 5]"
proof -
  have plain: "\<forall>p \<in> set threeReplies. plainTextReply p"
    by (simp add: threeReplies_def replyTo5_def textPayload_def plainTextReply_def truthy_def
        hasMedia_def js_def)
  have quiet: "noStatusPending (exampleDeliveryEnv m) Map.empty" for m
    by (simp add: noStatusPending_def getLastSentMessage_def)
  have ran: "completed (deliverReplies (exampleDeliveryEnv Reply_first) threeReplies Map.empty [])"
    "completed (deliverReplies (exampleDeliveryEnv Reply_off) threeReplies Map.empty [])"
    "completed (deliverReplies (exampleDeliveryEnv Reply_all) threeReplies Map.empty [])"
    by code_simp+
  have ids: "resolveTelegramReplyId (exampleDeliveryEnv m) (replyToId (replyTo5 t)) = Some 5" for m t
    by (simp add: exampleDeliveryEnv_def replyTo5_def)
  have counts: "chunkCount (exampleDeliveryEnv m) (replyTo5 t) = 1" for m t
    by (simp add: chunkCount_def chunkText_def exampleDeliveryEnv_def replyTo5_def textPayload_def)
  have modes: "replyToMode (exampleDeliveryEnv m) = m" for m
    by (simp add: exampleDeliveryEnv_def)
  from reply_threading_plain_text [OF plain quiet completed_finalState [OF ran(1)]]
    reply_threading_plain_text [OF plain quiet completed_finalState [OF ran(2)]]
    reply_threading_plain_text [OF plain quiet completed_finalState [OF ran(3)]]
    plain ran(1)
  show ?thesis
    by (simp add: modes ids counts threeReplies_def truthyNum_def list_all_iff)
qed

text \<open>
  The claim as stated (for every delivery of three text payloads) fails when the last
  message recorded for the chat is a recent status message: the first reply replaces
  that message by an edit, which carries no reply-to target and leaves
  \<open>hasReplied\<close> false, so in mode \<open>first\<close> the second outbound message carries the
  target, and in mode \<open>all\<close> the first one carries none.
\<close>

theorem reply_threading_after_status_counterexample:
  "list_all plainTextReply threeReplies
   \<and> completed (deliverReplies (exampleDeliveryEnv Reply_first) threeReplies statusCache [])
   \<and> outboundTargets (history (finalState
         (deliverReplies (exampleDeliveryEnv Reply_first) threeReplies statusCache [])))
       = [None, Some 5, None]
   \<and> completed (deliverReplies (exampleDeliveryEnv Reply_all) threeReplies statusCache [])
   \<and> outboundTargets (history (finalState
         (deliverReplies (exampleDeliveryEnv Reply_all) threeReplies statusCache [])))
       = [None, Some 5, Some 5]"
  by code_simp

text \<open>
  Claim C9. A reply with neither text nor media is dropped: nothing goes out for it,
  \<open>hasReplied\<close> and the cache stay as they are, the delivery does not throw, and the
  loop goes on with the remaining replies. For a reply flagged \<open>audioAsVoice\<close> the
  only trace is a verbose log line and no error; for any other, \<open>runtime.error\<close> is
  called with the message \<open>reply missing text/media\<close> (when the runtime has that member).
\<close>

theorem invalid_payload_dropped:
  assumes "\<not> truthy (ptext reply)" and "\<not> hasMedia reply"
  shows "deliverReply env reply s =
           Completed
             (if audioAsVoice reply
              then logged (LogVerbose
                     (js ''telegram reply has audioAsVoice without media/text; skipping'')) True s
              else if runtime_error_defined env
              then logged (Runtime_error (danger env (js ''reply missing text/media''))) True s
              else s)
       \<and> deliverLoop env (reply # rest) s =
           deliverLoop env rest
             (if audioAsVoice reply
              then logged (LogVerbose
                     (js ''telegram reply has audioAsVoice without media/text; skipping'')) True s
              else if runtime_error_defined env
              then logged (Runtime_error (danger env (js ''reply missing text/media''))) True s
              else s)
       \<and> outboundTargets (history (finalState (deliverReply env reply s))) = outboundTargets (history s)
       \<and> hasReplied (finalState (deliverReply env reply s)) = hasReplied s
       \<and> sentMessages (finalState (deliverReply env reply s)) = sentMessages s"
  using assms by (simp add: deliverReply_def outboundTargets_Cons)

theorem invalid_payload_dropped_witness:
  "\<not> truthy (ptext emptyReply) \<and> \<not> hasMedia emptyReply
   \<and> \<not> truthy (ptext voiceOnlyReply) \<and> \<not> hasMedia voiceOnlyReply
   \<and> completed (deliverLoop (exampleDeliveryEnv Reply_first)
        [emptyReply, voiceOnlyReply, replyTo5 (js ''one'')] freshDelivery)
   \<and> map fst (history (finalState (deliverLoop (exampleDeliveryEnv Reply_first)
        [emptyReply, voiceOnlyReply, replyTo5 (js ''one'')] freshDelivery)))
       = [Runtime_error (js ''reply missing text/media''),
          LogVerbose (js ''telegram reply has audioAsVoice without media/text; skipping''),
          Bot_sendMessage (js ''one'')
            \<lparr> parse_mode_html = True, link_preview_disabled = False,
              reply_to_message_id = Some 5, message_thread_id = None \<rparr>]"
proof -
  let ?env = "exampleDeliveryEnv Reply_first"
  have e: "\<not> truthy (ptext emptyReply)" "\<not> hasMedia emptyReply"
    and v: "\<not> truthy (ptext voiceOnlyReply)" "\<not> hasMedia voiceOnlyReply"
    by (simp_all add: emptyReply_def voiceOnlyReply_def truthy_def hasMedia_def)
  have flags: "\<not> audioAsVoice emptyReply" "audioAsVoice voiceOnlyReply" "runtime_error_defined ?env"
    "danger ?env (js ''reply missing text/media'') = js ''reply missing text/media''"
    by (simp_all add: emptyReply_def voiceOnlyReply_def exampleDeliveryEnv_def)
  let ?s1 = "logged (Runtime_error (js ''reply missing text/media'')) True freshDelivery"
  let ?s2 = "logged (LogVerbose
               (js ''telegram reply has audioAsVoice without media/text; skipping'')) True ?s1"
  from invalid_payload_dropped [OF e, of ?env freshDelivery "[voiceOnlyReply, replyTo5 (js ''one'')]"]
    invalid_payload_dropped [OF v, of ?env ?s1 "[replyTo5 (js ''one'')]"] flags
  have "deliverLoop ?env [emptyReply, voiceOnlyReply, replyTo5 (js ''one'')] freshDelivery
          = deliverLoop ?env [replyTo5 (js ''one'')] ?s2"
    by simp
  moreover have "completed (deliverLoop ?env [replyTo5 (js ''one'')] ?s2)"
    by code_simp
  moreover have "map fst (history (finalState (deliverLoop ?env [replyTo5 (js ''one'')] ?s2)))
       = [Runtime_error (js ''reply missing text/media''),
          LogVerbose (js ''telegram reply has audioAsVoice without media/text; skipping''),
          Bot_sendMessage (js ''one'')
            \<lparr> parse_mode_html = True, link_preview_disabled = False,
              reply_to_message_id = Some 5, message_thread_id = None \<rparr>]"
    by code_simp
  ultimately show ?thesis
    using e v by simp
qed

end
